theory Spec2Isabelle
  imports Main
begin

section \<open>Python string helpers\<close>

text \<open>
  Strings are lists of 8-bit characters.  \<open>str.strip()\<close> without an argument removes the
  characters for which \<open>str.isspace\<close> holds; among the first 256 code points these are
  TAB, LF, VT, FF, CR, FS, GS, RS, US, SPACE, NEL and NBSP.
\<close>

definition py_isspace :: "char \<Rightarrow> bool" where
  "py_isspace c = ((of_char c :: nat) \<in> {9, 10, 11, 12, 13, 28, 29, 30, 31, 32, 133, 160})"

definition py_lstrip :: "string \<Rightarrow> string" where
  "py_lstrip s = dropWhile py_isspace s"

definition py_rstrip :: "string \<Rightarrow> string" where
  "py_rstrip s = rev (dropWhile py_isspace (rev s))"

definition py_strip :: "string \<Rightarrow> string" where
  "py_strip s = py_rstrip (py_lstrip s)"

text \<open>\<open>s.startswith(p)\<close> and \<open>s.endswith(p)\<close>.\<close>

definition startswith :: "string \<Rightarrow> string \<Rightarrow> bool" where
  "startswith s p = (take (length p) s = p)"

definition endswith :: "string \<Rightarrow> string \<Rightarrow> bool" where
  "endswith s p = (length p \<le> length s \<and> drop (length s - length p) s = p)"

text \<open>\<open>s.find(p, start)\<close> for a one-character pattern: the first index at or after
  \<open>start\<close>, or \<open>None\<close> for Python's \<open>-1\<close>.\<close>

fun find_char_from :: "string \<Rightarrow> char \<Rightarrow> nat \<Rightarrow> nat option" where
  "find_char_from [] c i = None"
| "find_char_from (x # xs) c i = (if x = c then Some i else find_char_from xs c (Suc i))"

definition py_find_char :: "string \<Rightarrow> char \<Rightarrow> nat \<Rightarrow> nat option" where
  "py_find_char s c start = find_char_from (drop start s) c start"

text \<open>\<open>p in s\<close> for strings, and \<open>s.replace(old, new)\<close> for a non-empty \<open>old\<close>
  (left to right, non-overlapping).\<close>

fun py_contains :: "string \<Rightarrow> string \<Rightarrow> bool" where
  "py_contains [] p = (p = [])"
| "py_contains (x # xs) p = (take (length p) (x # xs) = p \<or> py_contains xs p)"

fun py_replace :: "string \<Rightarrow> string \<Rightarrow> string \<Rightarrow> string" where
  "py_replace [] old new = []"
| "py_replace (x # xs) old new =
     (if old \<noteq> [] \<and> take (length old) (x # xs) = old
      then new @ py_replace (drop (length old) (x # xs)) old new
      else x # py_replace xs old new)"

section \<open>The record store (MetaFileStore.py)\<close>

text \<open>
  The \<open>Model\<close> field holds one of the tags of \<open>CommonDataClass.DataClass\<close>.  The tags
  are a closed enumeration; \<open>MODEL_MINUS_ONE\<close> stands for the integer \<open>-1\<close>, which is no
  tag and is carried only by the end-flag record \<open>_DUMMY_\<close>.
\<close>

datatype model =
    MODEL_UNKNOWN
  | MODEL_MINUS_ONE
  | MODEL_META_DATA_HEADER_COMMENT
  | MODEL_META_DATA_HEADER
  | MODEL_META_DATA_INCLUDE
  | MODEL_META_DATA_DEFINE
  | MODEL_META_DATA_GLOBAL_DEFINE
  | MODEL_META_DATA_CONDITIONAL_STATEMENT_IF
  | MODEL_META_DATA_CONDITIONAL_STATEMENT_ELSE
  | MODEL_META_DATA_CONDITIONAL_STATEMENT_IFDEF
  | MODEL_META_DATA_CONDITIONAL_STATEMENT_IFNDEF
  | MODEL_META_DATA_CONDITIONAL_STATEMENT_ENDIF
  | MODEL_META_DATA_CONDITIONAL_STATEMENT_ELSEIF
  | MODEL_META_DATA_CONDITIONAL_STATEMENT_ERROR
  | MODEL_META_DATA_BUILD_OPTION
  | MODEL_META_DATA_COMPONENT
  | MODEL_META_DATA_USER_EXTENSION
  | MODEL_META_DATA_PACKAGE
  | MODEL_META_DATA_NMAKE
  | MODEL_META_DATA_COMMENT
  | MODEL_META_DATA_TAIL_COMMENT
  | MODEL_META_DATA_SECTION_HEADER
  | MODEL_META_DATA_SUBSECTION_HEADER
  | MODEL_EFI_PROTOCOL
  | MODEL_EFI_PPI
  | MODEL_EFI_GUID
  | MODEL_EFI_LIBRARY_CLASS
  | MODEL_EFI_LIBRARY_INSTANCE
  | MODEL_EFI_SOURCE_FILE
  | MODEL_EFI_BINARY_FILE
  | MODEL_EFI_SKU_ID
  | MODEL_EFI_INCLUDE
  | MODEL_EFI_DEPEX
  | MODEL_EFI_DEFAULT_STORES
  | MODEL_PCD_FIXED_AT_BUILD
  | MODEL_PCD_PATCHABLE_IN_MODULE
  | MODEL_PCD_FEATURE_FLAG
  | MODEL_PCD_DYNAMIC_EX
  | MODEL_PCD_DYNAMIC_EX_DEFAULT
  | MODEL_PCD_DYNAMIC_EX_VPD
  | MODEL_PCD_DYNAMIC_EX_HII
  | MODEL_PCD_DYNAMIC
  | MODEL_PCD_DYNAMIC_DEFAULT
  | MODEL_PCD_DYNAMIC_VPD
  | MODEL_PCD_DYNAMIC_HII

text \<open>
  The \<open>Enabled\<close> attribute of a package-table row is declared \<open>bool\<close>, but the end-flag
  row of that table stores the integer \<open>-1\<close> in it and \<open>PackageTable.Query\<close> compares it
  with \<open>0\<close>.  A Python \<open>bool\<close> is an \<open>int\<close> (\<open>False == 0\<close>, \<open>True == 1\<close>), so the field is
  modelled as a value that is either of the two, with its integer reading and its truth
  value.
\<close>

datatype pyflag = PyBool bool | PyInt int

fun pyflag_int :: "pyflag \<Rightarrow> int" where
  "pyflag_int (PyBool b) = (if b then 1 else 0)"
| "pyflag_int (PyInt i) = i"

fun pyflag_truth :: "pyflag \<Rightarrow> bool" where
  "pyflag_truth (PyBool b) = b"
| "pyflag_truth (PyInt i) = (i \<noteq> 0)"

record InfLine =
  ID :: int
  Model :: model
  Value1 :: string
  Value2 :: string
  Value3 :: string
  Scope1 :: string
  Scope2 :: string
  BelongsToItem :: int
  StartLine :: int
  StartColumn :: int
  EndLine :: int
  EndColumn :: int
  Enabled :: bool

record DecLine =
  ID :: int
  Model :: model
  Value1 :: string
  Value2 :: string
  Value3 :: string
  Scope1 :: string
  Scope2 :: string
  BelongsToItem :: int
  StartLine :: int
  StartColumn :: int
  EndLine :: int
  EndColumn :: int
  Enabled :: pyflag

record DscLine =
  ID :: int
  Model :: model
  Value1 :: string
  Value2 :: string
  Value3 :: string
  Scope1 :: string
  Scope2 :: string
  Scope3 :: string
  BelongsToItem :: int
  FromItem :: int
  StartLine :: int
  StartColumn :: int
  EndLine :: int
  EndColumn :: int
  Comment :: string
  Condition :: string
  Included :: string
  Enabled :: bool

text \<open>\<open>MetaFileTable\<close>: the rows in insertion order and the id counter \<open>self.ID\<close>.\<close>

record 'line MetaFileTable =
  CurrentContent :: "'line list"
  ID :: int

definition MetaFileTable_init :: "'line MetaFileTable" where
  "MetaFileTable_init = \<lparr>CurrentContent = [], MetaFileTable.ID = 0\<rparr>"

definition ID_STEP :: int where "ID_STEP = 1"
definition ID_MAX :: int where "ID_MAX = 99999999"

text \<open>\<open>DT.TAB_ARCH_COMMON\<close> and \<open>DT.TAB_COMMON\<close>: the wildcard scope value.\<close>

definition TAB_ARCH_COMMON :: string where "TAB_ARCH_COMMON = ''COMMON''"
definition TAB_COMMON :: string where "TAB_COMMON = ''COMMON''"

subsection \<open>ModuleTable (I-shape)\<close>

definition ModuleTable_DUMMY :: InfLine where
  "ModuleTable_DUMMY = InfLine.make (-1) MODEL_MINUS_ONE ''===='' ''===='' ''===='' ''===='' ''====''
     (-1) (-1) (-1) (-1) (-1) False"

text \<open>\<open>MODEL_FILE_INF\<close> is a constant of \<open>CommonDataClass.DataClass\<close>; it is a parameter
  \<open>mfi\<close> of the insertion.\<close>

definition ModuleTable_Insert ::
  "int \<Rightarrow> InfLine MetaFileTable \<Rightarrow> model \<Rightarrow> string \<Rightarrow> string \<Rightarrow> string \<Rightarrow> string \<Rightarrow> string
     \<Rightarrow> int \<Rightarrow> int \<Rightarrow> int \<Rightarrow> int \<Rightarrow> int \<Rightarrow> bool \<Rightarrow> InfLine MetaFileTable \<times> int" where
  "ModuleTable_Insert mfi t m v1 v2 v3 s1 s2 belongs sl sc el ec en =
     (let i0 = MetaFileTable.ID t + ID_STEP;
          i = (if i0 \<ge> mfi + ID_MAX then mfi + ID_STEP else i0);
          row = InfLine.make i m (py_strip v1) (py_strip v2) (py_strip v3) (py_strip s1) (py_strip s2)
                  belongs sl sc el ec en
      in (\<lparr>CurrentContent = CurrentContent t @ [row], MetaFileTable.ID = i\<rparr>, i))"

definition ModuleTable_Query ::
  "InfLine MetaFileTable \<Rightarrow> model \<Rightarrow> string option \<Rightarrow> string option \<Rightarrow> int option \<Rightarrow> InfLine list" where
  "ModuleTable_Query t m Arch Platform Belongs =
     (let result = filter (\<lambda>item. InfLine.Model item = m \<and> InfLine.Enabled item) (CurrentContent t);
          result = (case Arch of
                      None \<Rightarrow> result
                    | Some a \<Rightarrow> if a \<noteq> TAB_ARCH_COMMON
                                then filter (\<lambda>item. InfLine.Scope1 item \<in> {''COMMON'', a}) result
                                else result);
          result = (case Platform of
                      None \<Rightarrow> result
                    | Some p \<Rightarrow> if p \<noteq> TAB_COMMON
                                then filter (\<lambda>item. InfLine.Scope2 item \<in> {''COMMON'', ''DEFAULT'', p}) result
                                else result);
          result = (case Belongs of
                      None \<Rightarrow> result
                    | Some b \<Rightarrow> filter (\<lambda>item. InfLine.BelongsToItem item = b) result)
      in result)"

subsection \<open>PackageTable (P-shape)\<close>

definition PackageTable_DUMMY :: DecLine where
  "PackageTable_DUMMY = DecLine.make (-1) MODEL_MINUS_ONE ''===='' ''===='' ''===='' ''===='' ''====''
     (-1) (-1) (-1) (-1) (-1) (PyInt (-1))"

definition PackageTable_Insert ::
  "DecLine MetaFileTable \<Rightarrow> model \<Rightarrow> string \<Rightarrow> string \<Rightarrow> string \<Rightarrow> string \<Rightarrow> string
     \<Rightarrow> int \<Rightarrow> int \<Rightarrow> int \<Rightarrow> int \<Rightarrow> int \<Rightarrow> pyflag \<Rightarrow> DecLine MetaFileTable \<times> int" where
  "PackageTable_Insert t m v1 v2 v3 s1 s2 belongs sl sc el ec en =
     (let i = MetaFileTable.ID t + ID_STEP;
          row = DecLine.make i m (py_strip v1) (py_strip v2) (py_strip v3) (py_strip s1) (py_strip s2)
                  belongs sl sc el ec en
      in (\<lparr>CurrentContent = CurrentContent t @ [row], MetaFileTable.ID = i\<rparr>, i))"

definition PackageTable_Query ::
  "DecLine MetaFileTable \<Rightarrow> model \<Rightarrow> string option \<Rightarrow> DecLine list" where
  "PackageTable_Query t m Arch =
     (let result = filter (\<lambda>item. DecLine.Model item = m \<and> pyflag_int (DecLine.Enabled item) \<ge> 0)
                     (CurrentContent t);
          result = (case Arch of
                      None \<Rightarrow> result
                    | Some a \<Rightarrow> if a \<noteq> TAB_ARCH_COMMON
                                then filter (\<lambda>item. DecLine.Scope1 item \<in> {''COMMON'', a}) result
                                else result)
      in result)"

subsection \<open>PlatformTable (D-shape)\<close>

definition PlatformTable_DUMMY :: DscLine where
  "PlatformTable_DUMMY = DscLine.make (-1) MODEL_MINUS_ONE ''===='' ''===='' ''===='' ''===='' ''====''
     ''===='' (-1) (-1) (-1) (-1) (-1) (-1) '''' '''' '''' False"

definition PlatformTable_Insert ::
  "DscLine MetaFileTable \<Rightarrow> model \<Rightarrow> string \<Rightarrow> string \<Rightarrow> string \<Rightarrow> string \<Rightarrow> string \<Rightarrow> string
     \<Rightarrow> int \<Rightarrow> int \<Rightarrow> int \<Rightarrow> int \<Rightarrow> int \<Rightarrow> int \<Rightarrow> string \<Rightarrow> string \<Rightarrow> string \<Rightarrow> bool
     \<Rightarrow> DscLine MetaFileTable \<times> int" where
  "PlatformTable_Insert t m v1 v2 v3 s1 s2 s3 belongs from sl sc el ec cmt cond incl en =
     (let i = MetaFileTable.ID t + ID_STEP;
          row = DscLine.make i m (py_strip v1) (py_strip v2) (py_strip v3)
                  (py_strip s1) (py_strip s2) (py_strip s3)
                  belongs from sl sc el ec (py_strip cmt) (py_strip cond) (py_strip incl) en
      in (\<lparr>CurrentContent = CurrentContent t @ [row], MetaFileTable.ID = i\<rparr>, i))"

text \<open>
  In \<open>PlatformTable.Query\<close> the second scope filter is applied when \<open>Scope2\<close> is truthy
  (neither \<open>None\<close> nor the empty string) and differs from \<open>COMMON\<close>; a filter value
  containing a dot also admits \<open>COMMON\<close> followed by the part from the first dot on.
\<close>

definition PlatformTable_Sc2 :: "string \<Rightarrow> string set" where
  "PlatformTable_Sc2 s2 =
     (case py_find_char s2 CHR ''.'' 0 of
        Some idx \<Rightarrow> {''COMMON'', ''DEFAULT'', TAB_COMMON @ drop idx s2, s2}
      | None \<Rightarrow> {''COMMON'', ''DEFAULT'', s2})"

definition PlatformTable_Query ::
  "DscLine MetaFileTable \<Rightarrow> model \<Rightarrow> string option \<Rightarrow> string option \<Rightarrow> int option \<Rightarrow> int option
     \<Rightarrow> DscLine list" where
  "PlatformTable_Query t m S1 S2 Belongs From =
     (let result = filter (\<lambda>item. DscLine.Model item = m \<and> DscLine.Enabled item) (CurrentContent t);
          result = (case S1 of
                      None \<Rightarrow> result
                    | Some a \<Rightarrow> if a \<noteq> TAB_ARCH_COMMON
                                then filter (\<lambda>item. DscLine.Scope1 item \<in> {''COMMON'', a}) result
                                else result);
          result = (case S2 of
                      None \<Rightarrow> result
                    | Some p \<Rightarrow> if p \<noteq> [] \<and> p \<noteq> TAB_COMMON
                                then filter (\<lambda>item. DscLine.Scope2 item \<in> PlatformTable_Sc2 p) result
                                else result);
          result = (case Belongs of
                      Some b \<Rightarrow> filter (\<lambda>item. DscLine.BelongsToItem item = b) result
                    | None \<Rightarrow> filter (\<lambda>item. DscLine.BelongsToItem item < 0) result);
          result = (case From of
                      None \<Rightarrow> result
                    | Some f \<Rightarrow> filter (\<lambda>item. DscLine.FromItem item = f) result)
      in result)"

definition PlatformTable_DisableComponent :: "DscLine MetaFileTable \<Rightarrow> int \<Rightarrow> DscLine MetaFileTable" where
  "PlatformTable_DisableComponent t comp_id =
     t\<lparr>CurrentContent :=
         map (\<lambda>item. if DscLine.ID item = comp_id \<or> DscLine.BelongsToItem item = comp_id
                     then item\<lparr>DscLine.Enabled := False\<rparr> else item)
             (CurrentContent t)\<rparr>"

subsection \<open>Operations shared by the three shapes\<close>

definition SetEndFlag :: "'line \<Rightarrow> 'line MetaFileTable \<Rightarrow> 'line MetaFileTable" where
  "SetEndFlag dummy t = t\<lparr>CurrentContent := CurrentContent t @ [dummy]\<rparr>"

definition PlatformTable_IsIntegrity :: "DscLine MetaFileTable \<Rightarrow> bool" where
  "PlatformTable_IsIntegrity t =
     (if CurrentContent t = [] then False else DscLine.ID (last (CurrentContent t)) < 0)"

definition PlatformTable_GetAll :: "DscLine MetaFileTable \<Rightarrow> DscLine list" where
  "PlatformTable_GetAll t =
     filter (\<lambda>item. DscLine.ID item \<ge> 0 \<and> DscLine.Enabled item) (CurrentContent t)"

definition ModuleTable_GetAll :: "InfLine MetaFileTable \<Rightarrow> InfLine list" where
  "ModuleTable_GetAll t =
     filter (\<lambda>item. InfLine.ID item \<ge> 0 \<and> InfLine.Enabled item) (CurrentContent t)"

definition PackageTable_GetAll :: "DecLine MetaFileTable \<Rightarrow> DecLine list" where
  "PackageTable_GetAll t =
     filter (\<lambda>item. DecLine.ID item \<ge> 0 \<and> pyflag_truth (DecLine.Enabled item)) (CurrentContent t)"

subsection \<open>Sequences of insertions\<close>

text \<open>
  An insertion whose arguments are taken from the fields of a row (its \<open>ID\<close> is ignored),
  a sequence of insertions into one table returning the ids in order, and the relation
  between the rows of a table and its counter that insertions maintain.
\<close>

definition ModuleTable_InsertRow :: "int \<Rightarrow> InfLine MetaFileTable \<Rightarrow> InfLine \<Rightarrow> InfLine MetaFileTable \<times> int" where
  "ModuleTable_InsertRow mfi t r =
     ModuleTable_Insert mfi t (InfLine.Model r) (InfLine.Value1 r) (InfLine.Value2 r) (InfLine.Value3 r)
       (InfLine.Scope1 r) (InfLine.Scope2 r) (InfLine.BelongsToItem r)
       (InfLine.StartLine r) (InfLine.StartColumn r) (InfLine.EndLine r)
       (InfLine.EndColumn r) (InfLine.Enabled r)"

definition PackageTable_InsertRow :: "DecLine MetaFileTable \<Rightarrow> DecLine \<Rightarrow> DecLine MetaFileTable \<times> int" where
  "PackageTable_InsertRow t r =
     PackageTable_Insert t (DecLine.Model r) (DecLine.Value1 r) (DecLine.Value2 r) (DecLine.Value3 r)
       (DecLine.Scope1 r) (DecLine.Scope2 r) (DecLine.BelongsToItem r)
       (DecLine.StartLine r) (DecLine.StartColumn r) (DecLine.EndLine r)
       (DecLine.EndColumn r) (DecLine.Enabled r)"

definition PlatformTable_InsertRow :: "DscLine MetaFileTable \<Rightarrow> DscLine \<Rightarrow> DscLine MetaFileTable \<times> int" where
  "PlatformTable_InsertRow t r =
     PlatformTable_Insert t (DscLine.Model r) (DscLine.Value1 r) (DscLine.Value2 r) (DscLine.Value3 r)
       (DscLine.Scope1 r) (DscLine.Scope2 r) (DscLine.Scope3 r) (DscLine.BelongsToItem r)
       (DscLine.FromItem r) (DscLine.StartLine r) (DscLine.StartColumn r) (DscLine.EndLine r)
       (DscLine.EndColumn r) (DscLine.Comment r) (DscLine.Condition r) (DscLine.Included r)
       (DscLine.Enabled r)"

fun InsertRows :: "('t \<Rightarrow> 'r \<Rightarrow> 't \<times> int) \<Rightarrow> 't \<Rightarrow> 'r list \<Rightarrow> 't \<times> int list" where
  "InsertRows ins t [] = (t, [])"
| "InsertRows ins t (r # rs) =
     (case ins t r of (t1, i) \<Rightarrow>
        (case InsertRows ins t1 rs of (t2, ids) \<Rightarrow> (t2, i # ids)))"

definition ids_below_counter :: "('line \<Rightarrow> int) \<Rightarrow> 'line MetaFileTable \<Rightarrow> bool" where
  "ids_below_counter idf t =
     (list_all (\<lambda>r. idf r \<le> MetaFileTable.ID t) (CurrentContent t) \<and> distinct (map idf (CurrentContent t)))"

section \<open>PCD value analysis (Common/Misc.py)\<close>

definition DQUOTE :: char where "DQUOTE = CHR 0x22"
definition SQUOTE :: char where "SQUOTE = CHR 0x27"
definition BACKSLASH :: char where "BACKSLASH = CHR 0x5C"
definition NEWLINE :: char where "NEWLINE = CHR 0x0A"

text \<open>\<open>DT.TAB_VALUE_SPLIT\<close>, the field delimiter of a PCD value line.\<close>

definition TAB_VALUE_SPLIT :: char where "TAB_VALUE_SPLIT = CHR ''|''"

text \<open>\<open>str.upper()\<close> and \<open>str.lower()\<close> on ASCII letters; other characters are unchanged.\<close>

definition py_upper_char :: "char \<Rightarrow> char" where
  "py_upper_char c =
     (if (97::nat) \<le> of_char c \<and> (of_char c :: nat) \<le> 122 then char_of (of_char c - (32::nat)) else c)"

definition py_lower_char :: "char \<Rightarrow> char" where
  "py_lower_char c =
     (if (65::nat) \<le> of_char c \<and> (of_char c :: nat) \<le> 90 then char_of (of_char c + (32::nat)) else c)"

definition py_upper :: "string \<Rightarrow> string" where "py_upper s = map py_upper_char s"
definition py_lower :: "string \<Rightarrow> string" where "py_lower s = map py_lower_char s"

subsection \<open>AnalyzePcdExpression\<close>

text \<open>
  The first loop of \<open>AnalyzePcdExpression\<close>: it walks over \<open>Data\<close> with the flags
  \<open>InSingleQuoteStr\<close>, \<open>InDoubleQuoteStr\<close> and the counter \<open>Pair\<close> (here \<open>Pair_n\<close>), and
  builds \<open>NewStr\<close> in which a delimiter met while \<open>Pair > 0\<close> or inside a string is replaced by \<open>-\<close>.
  \<open>prev\<close> is \<open>Data[Index - 1]\<close>.
\<close>

fun mask_delimiters :: "char \<Rightarrow> bool \<Rightarrow> bool \<Rightarrow> int \<Rightarrow> string \<Rightarrow> string" where
  "mask_delimiters prev InSingleQuoteStr InDoubleQuoteStr Pair_n [] = []"
| "mask_delimiters prev InSingleQuoteStr InDoubleQuoteStr Pair_n (ch # rest) =
     (case (if ch = DQUOTE \<and> \<not> InSingleQuoteStr
            then (InSingleQuoteStr,
                  (if prev \<noteq> BACKSLASH then \<not> InDoubleQuoteStr else InDoubleQuoteStr), Pair_n)
            else if ch = SQUOTE \<and> \<not> InDoubleQuoteStr
            then ((if prev \<noteq> BACKSLASH then \<not> InSingleQuoteStr else InSingleQuoteStr),
                  InDoubleQuoteStr, Pair_n)
            else if ch = CHR ''('' \<and> \<not> (InSingleQuoteStr \<or> InDoubleQuoteStr)
            then (InSingleQuoteStr, InDoubleQuoteStr, Pair_n + 1)
            else if ch = CHR '')'' \<and> \<not> (InSingleQuoteStr \<or> InDoubleQuoteStr)
            then (InSingleQuoteStr, InDoubleQuoteStr, Pair_n - 1)
            else (InSingleQuoteStr, InDoubleQuoteStr, Pair_n))
      of (InS, InD, P) \<Rightarrow>
        (if (P > 0 \<or> InS \<or> InD) \<and> ch = TAB_VALUE_SPLIT then CHR ''-'' else ch)
          # mask_delimiters ch InS InD P rest)"

text \<open>
  The second loop: \<open>Pos = NewStr.find('|', StartPos)\<close>; the fields are the stripped slices
  of \<open>Setting\<close> between the positions found in \<open>NewStr\<close>.
\<close>

function split_fields :: "string \<Rightarrow> string \<Rightarrow> nat \<Rightarrow> string list" where
  "split_fields NewStr Setting StartPos =
     (case py_find_char NewStr TAB_VALUE_SPLIT StartPos of
        None \<Rightarrow> [py_strip (drop StartPos Setting)]
      | Some Pos \<Rightarrow>
          py_strip (take (Pos - StartPos) (drop StartPos Setting))
            # split_fields NewStr Setting (Pos + 1))"
  by pat_completeness auto
termination
proof (relation "measure (\<lambda>(NewStr, Setting, StartPos). Suc (length NewStr) - StartPos)")
  show "wf (measure (\<lambda>(NewStr, Setting, StartPos). Suc (length NewStr) - StartPos))"
    by simp
next
  fix NewStr Setting :: string and StartPos Pos :: nat
  assume f: "py_find_char NewStr TAB_VALUE_SPLIT StartPos = Some Pos"
  have b: "i \<le> j \<and> j < i + length xs" if "find_char_from xs c i = Some j" for xs c i j
    using that
  proof (induction xs arbitrary: i)
    case Nil
    then show ?case by simp
  next
    case (Cons a xs)
    show ?case
    proof (cases "a = c")
      case True
      with Cons.prems show ?thesis by simp
    next
      case False
      with Cons.prems have "find_char_from xs c (Suc i) = Some j" by simp
      from Cons.IH[OF this] show ?thesis by simp
    qed
  qed
  from b[OF f[unfolded py_find_char_def]]
  show "((NewStr, Setting, Pos + 1), (NewStr, Setting, StartPos))
          \<in> measure (\<lambda>(NewStr, Setting, StartPos). Suc (length NewStr) - StartPos)"
    by auto
qed

text \<open>
  \<open>RanStr\<close> is the string of eight characters that the function draws at random from the
  ASCII letters and digits; it is a parameter.  At index 0 the expression \<open>Data[Index - 1]\<close>
  is \<open>Data[-1]\<close>, the last character of \<open>Data\<close>.
\<close>

definition AnalyzePcdExpression :: "string \<Rightarrow> string \<Rightarrow> string list" where
  "AnalyzePcdExpression RanStr Setting0 =
     (let Setting = py_strip (py_replace Setting0 [BACKSLASH, BACKSLASH] RanStr);
          Data = Setting;
          NewStr = (if Data = [] then [] else mask_delimiters (last Data) False False 0 Data);
          FieldList = split_fields NewStr Setting 0
      in map (\<lambda>ch. if py_contains ch RanStr then py_replace ch RanStr [BACKSLASH, BACKSLASH] else ch)
             FieldList)"

subsection \<open>AnalyzeDscPcd\<close>

text \<open>
  \<open>StructPattern = re.compile(r'[_a-zA-Z][0-9A-Za-z_]*$')\<close>, used with \<open>match\<close>: an identifier
  from the start of the string up to its end, or up to a final newline (\<open>$\<close> also matches
  there).
\<close>

definition is_ident_start :: "char \<Rightarrow> bool" where
  "is_ident_start c = (c = CHR ''_'' \<or> ((97::nat) \<le> of_char c \<and> (of_char c :: nat) \<le> 122)
                        \<or> ((65::nat) \<le> of_char c \<and> (of_char c :: nat) \<le> 90))"

definition is_ident_char :: "char \<Rightarrow> bool" where
  "is_ident_char c = (is_ident_start c \<or> ((48::nat) \<le> of_char c \<and> (of_char c :: nat) \<le> 57))"

definition StructPattern_match :: "string \<Rightarrow> bool" where
  "StructPattern_match s =
     (case s of
        [] \<Rightarrow> False
      | c # cs \<Rightarrow> is_ident_start c \<and>
          (list_all is_ident_char cs \<or>
           (cs \<noteq> [] \<and> last cs = NEWLINE \<and> list_all is_ident_char (butlast cs))))"

definition TAB_VOID :: string where "TAB_VOID = ''VOID*''"
definition TAB_UINT8 :: string where "TAB_UINT8 = ''UINT8''"
definition TAB_UINT16 :: string where "TAB_UINT16 = ''UINT16''"
definition TAB_UINT32 :: string where "TAB_UINT32 = ''UINT32''"
definition TAB_UINT64 :: string where "TAB_UINT64 = ''UINT64''"

text \<open>
  Python's built-in \<open>int(text, base)\<close> is a parameter \<open>py_int base text\<close>, with \<open>None\<close> for
  \<open>ValueError\<close>.  \<open>size_parses\<close> is the \<open>try\<close> block that both branches with a size run.
\<close>

type_synonym py_int_fn = "nat \<Rightarrow> string \<Rightarrow> int option"

definition size_parses :: "py_int_fn \<Rightarrow> string \<Rightarrow> bool" where
  "size_parses py_int Size =
     (if startswith (py_upper Size) ''0X'' then py_int 16 Size \<noteq> None else py_int 10 Size \<noteq> None)"

definition is_pcd_value_or_default :: "model \<Rightarrow> bool" where
  "is_pcd_value_or_default t =
     (t \<in> {MODEL_PCD_FIXED_AT_BUILD, MODEL_PCD_PATCHABLE_IN_MODULE,
            MODEL_PCD_DYNAMIC_DEFAULT, MODEL_PCD_DYNAMIC_EX_DEFAULT})"

text \<open>The result is \<open>(ValueList, IsValid, Index)\<close>.\<close>

definition AnalyzeDscPcd ::
  "py_int_fn \<Rightarrow> string \<Rightarrow> string \<Rightarrow> model \<Rightarrow> string \<Rightarrow> string list \<times> bool \<times> nat" where
  "AnalyzeDscPcd py_int RanStr Setting PcdType DataType0 =
     (let FieldList = AnalyzePcdExpression RanStr Setting;
          n = length FieldList
      in if is_pcd_value_or_default PcdType then
           (let Value = FieldList ! 0;
                has1 = (n > 1 \<and> FieldList ! 1 \<noteq> []);
                DataType = (if has1 then FieldList ! 1 else DataType0);
                IsValid = (\<not> (has1 \<and> FieldList ! 1 \<noteq> TAB_VOID \<and> \<not> StructPattern_match (FieldList ! 1)));
                Size = (if n > 2 then FieldList ! 2 else []);
                IsValid = (if IsValid then (if DataType = [] then n \<le> 1 else n \<le> 3) else IsValid)
            in if Size \<noteq> [] \<and> \<not> size_parses py_int Size
               then ([Value, DataType, ''-1''], False, 0)
               else ([Value, DataType, Size], IsValid, 0))
         else if PcdType = MODEL_PCD_FEATURE_FLAG then
           ([FieldList ! 0, DataType0, []], n \<le> 1, 0)
         else if PcdType \<in> {MODEL_PCD_DYNAMIC_VPD, MODEL_PCD_DYNAMIC_EX_VPD} then
           (let VpdOffset = FieldList ! 0;
                Value = (if DataType0 \<noteq> TAB_VOID then (if n > 1 then FieldList ! 1 else [])
                         else (if n > 2 then FieldList ! 2 else []));
                Size = (if DataType0 \<noteq> TAB_VOID then [] else (if n > 1 then FieldList ! 1 else []));
                IsValid = (if DataType0 = [] then n \<le> 1 else n \<le> 3)
            in if Size \<noteq> [] \<and> \<not> size_parses py_int Size
               then ([VpdOffset, ''-1'', Value], False, 2)
               else ([VpdOffset, Size, Value], IsValid, 2))
         else if PcdType \<in> {MODEL_PCD_DYNAMIC_HII, MODEL_PCD_DYNAMIC_EX_HII} then
           ([FieldList ! 0,
             (if n > 1 then FieldList ! 1 else []),
             (if n > 2 then FieldList ! 2 else []),
             (if n > 3 then FieldList ! 3 else []),
             (if n > 4 then FieldList ! 4 else [])], 3 \<le> n \<and> n \<le> 5, 3)
         else ([], False, 0))"

subsection \<open>CheckPcdDatum\<close>

text \<open>
  \<open>ValueRe = re.compile(r'\s*L?\".*\"\s*$')\<close>, used with \<open>match\<close>: leading white space, an
  optional \<open>L\<close>, a double quote, any characters but newline, a double quote, white space up
  to the end.  \<open>ValueRe_tail\<close> matches what follows the opening quote.
\<close>

fun ValueRe_tail :: "string \<Rightarrow> bool" where
  "ValueRe_tail [] = False"
| "ValueRe_tail (c # cs) =
     ((c = DQUOTE \<and> list_all py_isspace cs) \<or> (c \<noteq> NEWLINE \<and> ValueRe_tail cs))"

definition ValueRe_match :: "string \<Rightarrow> bool" where
  "ValueRe_match s =
     (case dropWhile py_isspace s of
        [] \<Rightarrow> False
      | c # cs \<Rightarrow>
          if c = DQUOTE then ValueRe_tail cs
          else if c = CHR ''L'' then (case cs of [] \<Rightarrow> False | d # ds \<Rightarrow> d = DQUOTE \<and> ValueRe_tail ds)
          else False)"

text \<open>
  \<open>Printset\<close>: \<open>string.printable\<close> (the ASCII characters 32 to 126 and TAB, LF, VT, FF, CR)
  without \<open>TAB_PRINTCHAR_VT\<close> and with \<open>TAB_PRINTCHAR_BS\<close> and \<open>TAB_PRINTCHAR_NUL\<close>.
\<close>

definition Printset :: "char set" where
  "Printset = {c. ((32::nat) \<le> of_char c \<and> (of_char c :: nat) \<le> 126) \<or>
                  (of_char c :: nat) \<in> {9, 10, 12, 13, 8, 0}}"

text \<open>Modelled from the spec: \<open>MAX_VAL_TYPE\<close> of \<open>Common.DataType\<close>, the unsigned maximum of
  each numeric datum type.\<close>

definition MAX_VAL_TYPE :: "string \<Rightarrow> int" where
  "MAX_VAL_TYPE t =
     (if t = TAB_UINT8 then 0xFF else if t = TAB_UINT16 then 0xFFFF
      else if t = TAB_UINT32 then 0xFFFFFFFF else 0xFFFFFFFFFFFFFFFF)"

text \<open>The second component of the result of \<open>CheckPcdDatum\<close>, the cause, by kind of message.\<close>

datatype cause =
    NoCause
  | StructurePcd
  | InvalidForm
  | NotPrintable
  | InvalidBoolean
  | NegativeValue
  | TooLarge
  | NotAnInteger

definition CheckPcdDatum :: "py_int_fn \<Rightarrow> string \<Rightarrow> string \<Rightarrow> bool \<times> cause" where
  "CheckPcdDatum py_int Type Value =
     (if Type = TAB_VOID then
        (if \<not> (((startswith Value (''L'' @ [DQUOTE]) \<or> startswith Value [DQUOTE]) \<and> endswith Value [DQUOTE])
               \<or> (startswith Value ''{'' \<and> endswith Value ''}'')
               \<or> (startswith Value (''L'' @ [SQUOTE])
                   \<or> (startswith Value [SQUOTE] \<and> endswith Value [SQUOTE])))
         then (False, InvalidForm)
         else if ValueRe_match Value then
           (let Body = (if startswith Value ''L'' then drop 2 (butlast Value) else drop 1 (butlast Value))
            in if \<not> (set Body \<subseteq> Printset) then (False, NotPrintable) else (True, NoCause))
         else (True, NoCause))
      else if Type = ''BOOLEAN'' then
        (if Value \<notin> set [''TRUE'', ''True'', ''true'', ''0x1'', ''0x01'', ''1'',
                          ''FALSE'', ''False'', ''false'', ''0x0'', ''0x00'', ''0'']
         then (False, InvalidBoolean) else (True, NoCause))
      else if Type \<in> set [TAB_UINT8, TAB_UINT16, TAB_UINT32, TAB_UINT64] then
        (let Value1 = (if startswith Value ''0'' \<and> \<not> startswith (py_lower Value) ''0x''
                          \<and> length Value > 1 \<and> dropWhile (\<lambda>c. c = CHR ''0'') Value \<noteq> []
                       then dropWhile (\<lambda>c. c = CHR ''0'') Value else Value)
         in case py_int 0 Value1 of
              None \<Rightarrow> (False, NotAnInteger)
            | Some v \<Rightarrow>
                if Value1 \<noteq> [] \<and> v < 0 then (False, NegativeValue)
                else if v > MAX_VAL_TYPE Type then (False, TooLarge)
                else (True, NoCause))
      else (True, StructurePcd))"

section \<open>The parsers (MetaFileParser2.py)\<close>

subsection \<open>Errors and external collaborators\<close>

text \<open>
  Modelled from the spec: \<open>EdkLogger.error\<close> of \<open>Common.EdkLogger\<close>, which is not part of the
  sources at hand.  The spec: ``All errors are fatal: they terminate parsing with a formatted
  message; none are recovered locally.''  Every call ends the parse with an error value that
  carries the error kind and the message.  Python exceptions that the code lets escape are errors too.
  \<open>EvaluationException\<close> and \<open>MacroException\<close> are the two exception classes that
  \<open>_PostProcess\<close> catches and reports as \<open>FORMAT_INVALID\<close>.
\<close>

datatype error_kind =
    FORMAT_INVALID
  | FORMAT_UNKNOWN_ERROR
  | FILE_READ_FAILURE
  | FILE_NOT_FOUND
  | ERROR_STATEMENT
  | EvaluationException
  | MacroException
  | PyIndexError
  | PyKeyError
  | PyValueError
  | PyTypeError

type_synonym error = "error_kind \<times> string"

type_synonym macros = "string \<rightharpoonup> string"

type_synonym scope = "string \<times> string \<times> string"

text \<open>
  What calling a \<open>ValueExpression\<close> object gives to \<open>__ProcessDirective\<close>: a result (of which
  only the truth value is used), \<open>SymbolNotFound\<close>, \<open>WrnExpression\<close> with its result, or
  another exception.  What the call with \<open>RealValue = True\<close> gives to \<open>__ProcessPcd\<close>: a
  string, a value that is no string, or an exception (all of them are swallowed there, and
  \<open>WrnExpression\<close> yields its result).
\<close>

datatype expr_outcome =
    ExprResult bool
  | ExprSymbolNotFound
  | ExprWrn bool
  | ExprRaises error

datatype real_value =
    RealStr string
  | RealOther
  | RealRaises

text \<open>
  The request that the \<open>!include\<close> branch makes: the macro-expanded path, the ids passed as
  \<open>From\<close> and \<open>Owner\<close>, and the parser status copied to the parser of the included file.
\<close>

record include_request =
  IncludedPath :: string
  FromItemId :: int
  OwnerId :: int
  ReqSectionName :: string
  ReqSubsectionType :: model
  ReqInSubsection :: bool
  ReqSectionType :: model
  ReqScope :: "scope list"

text \<open>
  The collaborators outside the parser module: \<open>GetSplitValueList\<close> and \<open>ReplaceMacro\<close> of
  \<open>Common.StringUtils\<close> (the latter with its parameters \<open>SelfReplacement\<close> and
  \<open>RaiseError\<close>), \<open>ValueExpression\<close> of \<open>Common.Expression\<close>, Python's \<open>int\<close>, the random
  sample of \<open>AnalyzePcdExpression\<close>, the tables of \<open>Common.DataType\<close> (with \<open>TAB_DEC_DEFINES.upper()\<close> and the upper-case names of
  the sections that take the \<open>Private\<close> tag), the \<open>DataType\<close>
  dictionary of the parser class (its keys are built from \<open>Common.DataType\<close>), the lines of
  the meta file as \<open>readlines\<close> returns them (\<open>None\<close> when the file cannot be opened), and
  the parse of an included file: path validation, \<open>DscParser.StartParse\<close> on the file and
  \<open>IncludedFileTable.GetAll()\<close>.
\<close>

record ext =
  GetSplitValueList :: "string \<Rightarrow> char \<Rightarrow> int \<Rightarrow> string list"
  ReplaceMacro :: "string \<Rightarrow> macros \<Rightarrow> bool \<Rightarrow> bool \<Rightarrow> error + string"
  ValueExpression :: "string \<Rightarrow> macros \<Rightarrow> expr_outcome"
  ValueExpressionReal :: "string \<Rightarrow> macros \<Rightarrow> real_value"
  IncludeFile :: "include_request \<Rightarrow> error + DscLine list"
  PyIntParse :: py_int_fn
  RandomSample :: string
  DataType :: "string \<rightharpoonup> model"
  SECTIONS_HAVE_ITEM_AFTER_ARCH_SET :: "string set"
  SECTIONS_HAVE_ITEM_PCD_SET :: "string set"
  TAB_DEC_DEFINES_UPPER :: string
  PRIVATE_TAG_SECTIONS :: "string list"
  MetaFileLines :: "string list option"

subsection \<open>Parser state\<close>

text \<open>The dictionaries of \<open>Common.GlobalData\<close> that the platform parser reads and writes.
  Of \<open>gPlatformOtherPcds\<close> only the keys are kept; \<open>BuildOptionPcd\<close> holds the name and the
  value (after \<open>BuildOptionValue\<close>) of each entry that is no tuple.\<close>

record GlobalData =
  gGlobalDefines :: macros
  gCommandLineDefines :: macros
  gEdkGlobal :: macros
  gPlatformDefines :: macros
  gPlatformPcds :: macros
  gPlatformOtherPcds :: "string set"
  BuildOptionPcd :: "(string \<times> string) list"

text \<open>
  The attributes of \<open>MetaFileParser\<close>.  The constructor binds \<open>_Table\<close> and \<open>_RawTable\<close> to
  the same table object, and only \<open>DscParser._PostProcess\<close> binds \<open>_Table\<close> to another one:
  \<open>PostTable\<close> is \<open>None\<close> while \<open>_Table\<close> is the object \<open>_RawTable\<close>, and holds the table
  of \<open>_Table\<close> otherwise.  \<open>ValueList\<close> is \<open>None\<close> when the Python attribute is \<open>None\<close>.  \<open>SectionsMacroDict\<close> is a dictionary in insertion order, keyed by the section type
  and the tuple of scopes.
\<close>

record 'line MetaFileParser =
  RawTable :: "'line MetaFileTable"
  PostTable :: "'line MetaFileTable option"
  Defines :: macros
  FileLocalMacros :: macros
  SectionsMacroDict :: "((model \<times> scope list) \<times> macros) list"
  Owner :: "int list"
  From :: int
  ValueList :: "string list option"
  Scope :: "scope list"
  LineIndex :: int
  CurrentLine :: string
  SectionType :: model
  SectionName :: string
  InSubsection :: bool
  SubsectionType :: model
  SubsectionName :: string
  ItemType :: model
  LastItem :: int
  Enabled :: bool
  Finished :: bool
  PostProcessed :: bool
  Version :: int

text \<open>
  The attributes that \<open>DscParser\<close> adds.  The head of \<open>DirectiveStack\<close> and of
  \<open>DirectiveEvalStack\<close> is the top of the Python stack (the last element of the Python
  list).  \<open>Content\<close> is the list that \<open>_PostProcess\<close> walks; the value \<open>None\<close> that it gets
  when the pass is over is the empty list here.
\<close>

record DscParser = "DscLine MetaFileParser" +
  DirectiveStack :: "model list"
  DirectiveEvalStack :: "bool list"
  InDirective :: int
  Symbols :: macros
  IdMapping :: "int \<rightharpoonup> int"
  Content :: "DscLine list"
  ContentIndex :: nat
  Globals :: GlobalData

text \<open>The attributes that \<open>DecParser\<close> adds; its \<open>_SectionType\<close> is a list of tags
  (\<open>SectionTypes\<close>) and each of its scopes carries a tag as third component.\<close>

record DecParser = "DecLine MetaFileParser" +
  SectionTypes :: "model list"
  DecScope :: "(string \<times> string \<times> model) list"
  Comments :: "(string \<times> int) list"
  DefinesCount :: nat

subsection \<open>Macros visible at the current line\<close>

definition ConstructSectionMacroDict ::
  "('line, 'm) MetaFileParser_scheme \<Rightarrow> string \<Rightarrow> string \<Rightarrow> ('line, 'm) MetaFileParser_scheme" where
  "ConstructSectionMacroDict st Name Value =
     (let SectionDictKey = (SectionType st, Scope st);
          d = SectionsMacroDict st
      in st\<lparr>SectionsMacroDict :=
            (if SectionDictKey \<in> fst ` set d
             then map (\<lambda>(k, m). if k = SectionDictKey then (k, m(Name \<mapsto> Value)) else (k, m)) d
             else d @ [(SectionDictKey, Map.empty(Name \<mapsto> Value))])\<rparr>)"

text \<open>
  \<open>_GetApplicableSectionMacro\<close>.  The \<open>else\<close> of a \<open>for\<close> loop runs when the loop ends without
  \<open>break\<close>, that is when every active scope passes the test.
\<close>

definition GetApplicableSectionMacro :: "('line, 'm) MetaFileParser_scheme \<Rightarrow> macros" where
  "GetApplicableSectionMacro st =
     (let entries = filter (\<lambda>((SecType, Sc), m). SecType = SectionType st) (SectionsMacroDict st);
          SpeSpeMacroDict =
            fold (\<lambda>((SecType, Sc), m) acc.
                    if list_all (\<lambda>a. a \<in> set Sc) (Scope st) then acc ++ m else acc)
                 entries Map.empty;
          ComSpeMacroDict =
            fold (\<lambda>((SecType, Sc), m) acc.
                    if list_all (\<lambda>(Scope0, Scope1, Scope2).
                                   \<not> ((Scope0, Scope1, Scope2) \<notin> set Sc
                                      \<and> (Scope0, TAB_COMMON, TAB_COMMON) \<notin> set Sc
                                      \<and> (TAB_COMMON, Scope1, TAB_COMMON) \<notin> set Sc)) (Scope st)
                    then acc ++ m else acc)
                 entries Map.empty;
          ComComMacroDict =
            fold (\<lambda>((SecType, Sc), m) acc.
                    if (TAB_COMMON, TAB_COMMON, TAB_COMMON) \<in> set Sc then acc ++ m else acc)
                 entries Map.empty
      in ComComMacroDict ++ ComSpeMacroDict ++ SpeSpeMacroDict)"

text \<open>The property \<open>_Macros\<close> of \<open>MetaFileParser\<close> and its override in \<open>DscParser\<close>.\<close>

definition MetaFileParser_Macros :: "('line, 'm) MetaFileParser_scheme \<Rightarrow> macros" where
  "MetaFileParser_Macros st = FileLocalMacros st ++ GetApplicableSectionMacro st"

definition DscParser_Macros :: "DscParser \<Rightarrow> macros" where
  "DscParser_Macros st =
     (let Macros = FileLocalMacros st ++ GetApplicableSectionMacro st
                     ++ gEdkGlobal (Globals st) ++ gPlatformDefines (Globals st)
                     ++ gCommandLineDefines (Globals st);
          Macros = (if ItemType st \<notin> {MODEL_META_DATA_DEFINE, MODEL_META_DATA_GLOBAL_DEFINE}
                    then Macros ++ Symbols st else Macros)
      in fold (\<lambda>(PcdName, TmpValue) m. m(py_strip PcdName \<mapsto> TmpValue)) (BuildOptionPcd (Globals st)) Macros)"


text \<open>The table that \<open>self._Table\<close> denotes, and an update of it.\<close>

definition Table :: "('line, 'm) MetaFileParser_scheme \<Rightarrow> 'line MetaFileTable" where
  "Table st = (case PostTable st of None \<Rightarrow> RawTable st | Some t \<Rightarrow> t)"

definition set_Table ::
  "'line MetaFileTable \<Rightarrow> ('line, 'm) MetaFileParser_scheme \<Rightarrow> ('line, 'm) MetaFileParser_scheme" where
  "set_Table t st = (case PostTable st of None \<Rightarrow> st\<lparr>RawTable := t\<rparr> | Some _ \<Rightarrow> st\<lparr>PostTable := Some t\<rparr>)"

text \<open>\<open>_Done\<close>: the parse is complete and the table gets its end flag.\<close>

definition Done :: "'line \<Rightarrow> ('line, 'm) MetaFileParser_scheme \<Rightarrow> ('line, 'm) MetaFileParser_scheme" where
  "Done dummy st = set_Table (SetEndFlag dummy (Table st)) (st\<lparr>Finished := True\<rparr>)"

subsection \<open>Section headers\<close>











subsection \<open>Starting a parse\<close>

text \<open>
  \<open>CODEPattern = re.compile(r"{CODE\([a-fA-F0-9Xx\{\},\s]*\)}")\<close>, used with \<open>findall\<close>: the
  pattern occurs somewhere in the line.
\<close>

definition code_value_char :: "char \<Rightarrow> bool" where
  "code_value_char c =
     (((97::nat) \<le> of_char c \<and> (of_char c :: nat) \<le> 102) \<or>
      ((65::nat) \<le> of_char c \<and> (of_char c :: nat) \<le> 70) \<or>
      ((48::nat) \<le> of_char c \<and> (of_char c :: nat) \<le> 57) \<or>
      c \<in> {CHR ''X'', CHR ''x'', CHR ''{'', CHR ''}'', CHR '',''} \<or> py_isspace c)"

fun code_value_tail :: "string \<Rightarrow> bool" where
  "code_value_tail [] = False"
| "code_value_tail (c # cs) =
     (startswith (c # cs) '')}'' \<or> (code_value_char c \<and> code_value_tail cs))"

fun CODEPattern_findall :: "string \<Rightarrow> bool" where
  "CODEPattern_findall [] = False"
| "CODEPattern_findall (c # cs) =
     ((startswith (c # cs) ''{CODE('' \<and> code_value_tail (drop 6 (c # cs))) \<or> CODEPattern_findall cs)"

text \<open>\<open>ProcessMultipleLineCODEValue\<close>: the loop state is \<open>CODEBegin\<close>, \<open>CODELine\<close>,
  \<open>continuelinecount\<close> and \<open>newContent\<close>.\<close>

definition CODEValue_line ::
  "string \<Rightarrow> bool \<times> string \<times> nat \<times> string list \<Rightarrow> bool \<times> string \<times> nat \<times> string list" where
  "CODEValue_line Line s =
     (case s of (CODEBegin, CODELine, continuelinecount, newContent) \<Rightarrow>
      if CODEBegin then
        (if py_contains Line '')}''
         then (False, [], 0, newContent @ [CODELine @ Line] @ replicate (Suc continuelinecount) [])
         else (True, CODELine @ Line, Suc continuelinecount, newContent))
      else if Line = [] then (CODEBegin, CODELine, continuelinecount, newContent @ [Line])
      else if \<not> py_contains Line ''{CODE('' then (CODEBegin, CODELine, continuelinecount, newContent @ [Line])
      else if CODEPattern_findall Line then (CODEBegin, CODELine, continuelinecount, newContent @ [Line])
      else (True, Line, continuelinecount, newContent))"

definition ProcessMultipleLineCODEValue :: "string list \<Rightarrow> string list" where
  "ProcessMultipleLineCODEValue Content0 =
     snd (snd (snd (fold CODEValue_line Content0 (False, [], 0, []))))"

text \<open>
  The loop \<open>for Index in range(0, len(Content))\<close> of a \<open>Start\<close> method.  The body of the loop
  (cleaning the line and dispatching it to the parser of the current section) is a parameter
  that takes the index and the loop state and returns the next loop state or the error raised.
\<close>

fun run_lines :: "(nat \<Rightarrow> 's \<Rightarrow> error + 's) \<Rightarrow> nat list \<Rightarrow> 's \<Rightarrow> error + 's" where
  "run_lines body [] s = Inr s"
| "run_lines body (i # rest) s =
     (case body i s of Inl e \<Rightarrow> Inl e | Inr s' \<Rightarrow> run_lines body rest s')"

text \<open>The local variables of \<open>InfParser.Start\<close> that live across the iterations.\<close>

record inf_locals =
  IsFindBlockComment :: bool
  GetHeaderComment :: bool
  TailComments :: "(string \<times> int) list"
  SectionComments :: "(string \<times> int) list"
  LineComments :: "(string \<times> int) list"
  NmakeLine :: string

definition inf_locals_init :: inf_locals where
  "inf_locals_init = \<lparr>IsFindBlockComment = False, GetHeaderComment = False, TailComments = [],
     SectionComments = [], LineComments = [], NmakeLine = []\<rparr>"

text \<open>\<open>self._Store(MODEL_META_DATA_TAIL_COMMENT, Comment[0], '', '', COMMON, COMMON,
  self._Owner[-1], -1, -1, -1, -1, True)\<close> for each tail comment.\<close>

fun store_tail_comments ::
  "int \<Rightarrow> (string \<times> int) list \<Rightarrow> (InfLine, 'm) MetaFileParser_scheme
     \<Rightarrow> error + (InfLine, 'm) MetaFileParser_scheme" where
  "store_tail_comments mfi [] st = Inr st"
| "store_tail_comments mfi (c # cs) st =
     (if Owner st = [] then Inl (PyIndexError, ''list index out of range'')
      else store_tail_comments mfi cs
             (set_Table (fst (ModuleTable_Insert mfi (Table st) MODEL_META_DATA_TAIL_COMMENT (fst c) [] []
                                TAB_COMMON TAB_COMMON (last (Owner st)) (-1) (-1) (-1) (-1) True)) st))"

definition InfParser_Start ::
  "int \<Rightarrow> ext
     \<Rightarrow> (nat \<Rightarrow> string list \<Rightarrow> (InfLine, 'm) MetaFileParser_scheme \<times> inf_locals
           \<Rightarrow> error + ((InfLine, 'm) MetaFileParser_scheme \<times> inf_locals))
     \<Rightarrow> (InfLine, 'm) MetaFileParser_scheme \<Rightarrow> error + (InfLine, 'm) MetaFileParser_scheme" where
  "InfParser_Start mfi ex body st =
     (case MetaFileLines ex of
        None \<Rightarrow> Inl (FILE_READ_FAILURE, [])
      | Some Content0 \<Rightarrow>
          (case run_lines (\<lambda>i. body i Content0) [0..<length Content0] (st, inf_locals_init) of
             Inl e \<Rightarrow> Inl e
           | Inr (st, loc) \<Rightarrow>
               if IsFindBlockComment loc
               then Inl (FORMAT_INVALID, ''Open block comments (starting with /*) are expected to end with */'')
               else (case store_tail_comments mfi
                            (TailComments loc @ SectionComments loc @ LineComments loc) st of
                       Inl e \<Rightarrow> Inl e
                     | Inr st \<Rightarrow> Inr (Done ModuleTable_DUMMY st))))"

text \<open>\<open>DscParser.Start\<close>; the local variable that lives across the iterations is the
  dictionary \<open>OwnerId\<close>.\<close>

definition DscParser_Start ::
  "ext \<Rightarrow> (nat \<Rightarrow> string list \<Rightarrow> DscParser \<times> (string \<rightharpoonup> int) \<Rightarrow> error + (DscParser \<times> (string \<rightharpoonup> int)))
     \<Rightarrow> DscParser \<Rightarrow> error + DscParser" where
  "DscParser_Start ex body st =
     (case MetaFileLines ex of
        None \<Rightarrow> Inl (FILE_READ_FAILURE, [])
      | Some Content0 \<Rightarrow>
          (let Content1 = ProcessMultipleLineCODEValue Content0 in
           case run_lines (\<lambda>i. body i Content1) [0..<length Content1] (st, Map.empty) of
             Inl e \<Rightarrow> Inl e
           | Inr (st, OwnerIds) \<Rightarrow>
               if DirectiveStack st \<noteq> []
               then Inl (FORMAT_INVALID, ''No matching '!endif' found'')
               else Inr (Done PlatformTable_DUMMY st)))"

text \<open>\<open>DecParser.Start\<close>.\<close>

definition DecParser_Start ::
  "ext \<Rightarrow> (nat \<Rightarrow> string list \<Rightarrow> DecParser \<Rightarrow> error + DecParser) \<Rightarrow> DecParser \<Rightarrow> error + DecParser" where
  "DecParser_Start ex body st =
     (case MetaFileLines ex of
        None \<Rightarrow> Inl (FILE_READ_FAILURE, [])
      | Some Content0 \<Rightarrow>
          (let Content1 = ProcessMultipleLineCODEValue Content0 in
           case run_lines (\<lambda>i. body i Content1) [0..<length Content1] (st\<lparr>DefinesCount := 0\<rparr>) of
             Inl e \<Rightarrow> Inl e
           | Inr st \<Rightarrow>
               if DefinesCount st > 1
               then Inl (FORMAT_INVALID, ''Multiple [Defines] section is exist.'')
               else if DefinesCount st = 0
               then Inl (FORMAT_INVALID, ''No [Defines] section exist.'')
               else Inr (Done PackageTable_DUMMY st)))"

subsection \<open>Post-processing of the platform file\<close>

text \<open>\<open>(not self._DirectiveEvalStack) or (False not in self._DirectiveEvalStack)\<close>.\<close>

definition stack_enabled :: "bool list \<Rightarrow> bool" where
  "stack_enabled es = (es = [] \<or> False \<notin> set es)"

definition is_if_directive :: "model \<Rightarrow> bool" where
  "is_if_directive m =
     (m \<in> {MODEL_META_DATA_CONDITIONAL_STATEMENT_IF, MODEL_META_DATA_CONDITIONAL_STATEMENT_IFDEF,
            MODEL_META_DATA_CONDITIONAL_STATEMENT_IFNDEF})"

text \<open>The value list that \<open>_PostProcess\<close> sets before a processor runs has three elements.\<close>

definition with_values ::
  "DscParser \<Rightarrow> (string \<Rightarrow> string \<Rightarrow> string \<Rightarrow> error + DscParser) \<Rightarrow> error + DscParser" where
  "with_values st f =
     (case ValueList st of
        Some [a, b, c] \<Rightarrow> f a b c
      | _ \<Rightarrow> Inl (PyValueError, ''value list''))"

text \<open>\<open>[ReplaceMacro(Value, self._Macros, RaiseError=r) for Value in self._ValueList]\<close>.\<close>

fun ReplaceMacro_each :: "ext \<Rightarrow> macros \<Rightarrow> bool \<Rightarrow> string list \<Rightarrow> error + string list" where
  "ReplaceMacro_each ex Macros r [] = Inr []"
| "ReplaceMacro_each ex Macros r (v # vs) =
     (case ReplaceMacro ex v Macros False r of
        Inl e \<Rightarrow> Inl e
      | Inr v' \<Rightarrow> (case ReplaceMacro_each ex Macros r vs of Inl e \<Rightarrow> Inl e | Inr vs' \<Rightarrow> Inr (v' # vs')))"

definition ReplaceMacro_all :: "ext \<Rightarrow> bool \<Rightarrow> DscParser \<Rightarrow> error + DscParser" where
  "ReplaceMacro_all ex r st =
     (case ValueList st of
        None \<Rightarrow> Inl (PyTypeError, ''NoneType is not iterable'')
      | Some vs \<Rightarrow>
          (case ReplaceMacro_each ex (DscParser_Macros st) r vs of
             Inl e \<Rightarrow> Inl e
           | Inr vs' \<Rightarrow> Inr (st\<lparr>ValueList := Some vs'\<rparr>)))"

definition ProcessError :: "ext \<Rightarrow> DscParser \<Rightarrow> error + DscParser" where
  "ProcessError ex st =
     (if \<not> MetaFileParser.Enabled st then Inr st
      else with_values st (\<lambda>a b c. Inl (ERROR_STATEMENT, b)))"

definition ProcessSectionHeader :: "ext \<Rightarrow> DscParser \<Rightarrow> error + DscParser" where
  "ProcessSectionHeader ex st =
     with_values st (\<lambda>a b c.
       Inr (st\<lparr>SectionName := a,
               SectionType := (case DataType ex a of Some ty \<Rightarrow> ty | None \<Rightarrow> MODEL_UNKNOWN)\<rparr>))"

definition ProcessSubsectionHeader :: "ext \<Rightarrow> DscParser \<Rightarrow> error + DscParser" where
  "ProcessSubsectionHeader ex st =
     with_values st (\<lambda>a b c.
       Inr (st\<lparr>SubsectionName := a,
               SubsectionType := (case DataType ex a of Some ty \<Rightarrow> ty | None \<Rightarrow> MODEL_UNKNOWN)\<rparr>))"

text \<open>\<open>__ProcessDefine\<close>; \<open>ProcessDefine_record\<close> is the part after the macro replacement in the
  value.\<close>

definition ProcessDefine_record :: "DscParser \<Rightarrow> string \<Rightarrow> string \<Rightarrow> string \<Rightarrow> DscParser" where
  "ProcessDefine_record st Type Name Value =
     (if InSubsection st then st\<lparr>ValueList := Some [Type, Name, Value]\<rparr>
      else
        (let st1 =
           (if ItemType st = MODEL_META_DATA_DEFINE then
              (if SectionType st = MODEL_META_DATA_HEADER
               then st\<lparr>FileLocalMacros := (FileLocalMacros st)(Name \<mapsto> Value)\<rparr>
               else ConstructSectionMacroDict st Name Value)
            else if ItemType st = MODEL_META_DATA_GLOBAL_DEFINE
            then st\<lparr>Globals := (Globals st)\<lparr>gEdkGlobal := (gEdkGlobal (Globals st))(Name \<mapsto> Value)\<rparr>\<rparr>
            else st);
             st2 =
           (if ItemType st1 = MODEL_META_DATA_HEADER \<and> SectionType st1 = MODEL_META_DATA_HEADER
            then st1\<lparr>FileLocalMacros := (FileLocalMacros st1)(Name \<mapsto> Value)\<rparr>
            else st1)
         in st2\<lparr>ValueList := Some [Type, Name, Value]\<rparr>))"

definition ProcessDefine :: "ext \<Rightarrow> DscParser \<Rightarrow> error + DscParser" where
  "ProcessDefine ex st =
     (if \<not> MetaFileParser.Enabled st then Inr st
      else with_values st (\<lambda>Type Name Value0.
        case ReplaceMacro ex Value0 (DscParser_Macros st) False False of
          Inl e \<Rightarrow> Inl e
        | Inr Value \<Rightarrow> Inr (ProcessDefine_record st Type Name Value)))"

text \<open>The loop of the \<open>!endif\<close> branch: pop both stacks down to the nearest
  \<open>!if\<close>, \<open>!ifdef\<close> or \<open>!ifndef\<close>.\<close>

fun endif_pop :: "model list \<Rightarrow> bool list \<Rightarrow> error + (model list \<times> bool list)" where
  "endif_pop [] es = Inr ([], es)"
| "endif_pop (d # ds) [] = Inl (PyIndexError, ''pop from empty list'')"
| "endif_pop (d # ds) (e # es) = (if is_if_directive d then Inr (ds, es) else endif_pop ds es)"

text \<open>The \<open>!include\<close> branch of \<open>__ProcessDirective\<close>.\<close>

definition ProcessInclude :: "ext \<Rightarrow> DscParser \<Rightarrow> string \<Rightarrow> error + DscParser" where
  "ProcessInclude ex st v1 =
     (case gGlobalDefines (Globals st) ''WORKSPACE'' of
        None \<Rightarrow> Inl (PyKeyError, ''WORKSPACE'')
      | Some ws \<Rightarrow>
          (case ReplaceMacro ex v1 ((Map.empty(''WORKSPACE'' \<mapsto> ws)) ++ DscParser_Macros st) False True of
             Inl e \<Rightarrow> Inl e
           | Inr IncludedFile \<Rightarrow>
               if \<not> MetaFileParser.Enabled st then Inr st
               else
                 (let prev = Content st ! (ContentIndex st - 1);
                      FromId = DscLine.ID prev;
                      OwnId = (if InSubsection st then DscLine.BelongsToItem prev else DscLine.ID prev)
                  in case IncludeFile ex
                            \<lparr>IncludedPath = IncludedFile, FromItemId = FromId, OwnerId = OwnId,
                             ReqSectionName = SectionName st, ReqSubsectionType = SubsectionType st,
                             ReqInSubsection = InSubsection st, ReqSectionType = SectionType st,
                             ReqScope = Scope st\<rparr> of
                       Inl e \<Rightarrow> Inl e
                     | Inr Records \<Rightarrow>
                         if Records \<noteq> []
                         then Inr (st\<lparr>Content := take (ContentIndex st - 1) (Content st) @ Records
                                                    @ drop (ContentIndex st) (Content st),
                                       ValueList := None,
                                       ContentIndex := ContentIndex st - 1\<rparr>)
                         else Inr st)))"

definition ProcessDirective :: "ext \<Rightarrow> DscParser \<Rightarrow> error + DscParser" where
  "ProcessDirective ex st =
     with_values st (\<lambda>v0 v1 v2.
       case (if ItemType st \<in> {MODEL_META_DATA_CONDITIONAL_STATEMENT_IF,
                                MODEL_META_DATA_CONDITIONAL_STATEMENT_ELSEIF}
             then (case ValueExpression ex v1 (DscParser_Macros st ++ gGlobalDefines (Globals st)) of
                     ExprResult b \<Rightarrow> Inr b
                   | ExprSymbolNotFound \<Rightarrow> Inr False
                   | ExprWrn b \<Rightarrow> Inr b
                   | ExprRaises e \<Rightarrow> Inl e)
             else Inr False)
       of Inl e \<Rightarrow> Inl e
        | Inr Result \<Rightarrow>
           if is_if_directive (ItemType st) then
             (let Result1 =
                (if ItemType st = MODEL_META_DATA_CONDITIONAL_STATEMENT_IF then Result
                 else
                   (let Macro = (if startswith v1 ''$('' \<and> endswith v1 '')''
                                 then drop 2 (butlast v1) else v1);
                        Defined = (DscParser_Macros st Macro \<noteq> None)
                    in if ItemType st = MODEL_META_DATA_CONDITIONAL_STATEMENT_IFNDEF
                       then \<not> Defined else Defined))
              in Inr (st\<lparr>DirectiveStack := ItemType st # DirectiveStack st,
                         DirectiveEvalStack := Result1 # DirectiveEvalStack st\<rparr>))
           else if ItemType st = MODEL_META_DATA_CONDITIONAL_STATEMENT_ELSEIF then
             (case DirectiveEvalStack st of
                [] \<Rightarrow> Inl (PyIndexError, ''list index out of range'')
              | e # es \<Rightarrow> Inr (st\<lparr>DirectiveStack := ItemType st # DirectiveStack st,
                                  DirectiveEvalStack := Result # (\<not> e) # es\<rparr>))
           else if ItemType st = MODEL_META_DATA_CONDITIONAL_STATEMENT_ELSE then
             (case DirectiveEvalStack st of
                [] \<Rightarrow> Inl (PyIndexError, ''list index out of range'')
              | e # es \<Rightarrow> Inr (st\<lparr>DirectiveStack := ItemType st # DirectiveStack st,
                                  DirectiveEvalStack := True # (\<not> e) # es\<rparr>))
           else if ItemType st = MODEL_META_DATA_CONDITIONAL_STATEMENT_ENDIF then
             (case endif_pop (DirectiveStack st) (DirectiveEvalStack st) of
                Inl e \<Rightarrow> Inl e
              | Inr (ds, es) \<Rightarrow> Inr (st\<lparr>DirectiveStack := ds, DirectiveEvalStack := es\<rparr>))
           else if ItemType st = MODEL_META_DATA_INCLUDE then ProcessInclude ex st v1
           else Inr st)"

definition ProcessPackages :: "ext \<Rightarrow> DscParser \<Rightarrow> error + DscParser" where
  "ProcessPackages ex st =
     with_values st (\<lambda>a b c.
       case ReplaceMacro ex a (DscParser_Macros st) False False of
         Inl e \<Rightarrow> Inl e
       | Inr a' \<Rightarrow> Inr (st\<lparr>ValueList := Some [a', b, c]\<rparr>))"

definition ProcessLibraryClass :: "ext \<Rightarrow> DscParser \<Rightarrow> error + DscParser" where
  "ProcessLibraryClass ex st =
     with_values st (\<lambda>a b c.
       case ReplaceMacro ex b (DscParser_Macros st) False True of
         Inl e \<Rightarrow> Inl e
       | Inr b' \<Rightarrow> Inr (st\<lparr>ValueList := Some [a, b', c]\<rparr>))"

text \<open>\<open>'|'.join(ValList)\<close>.\<close>

fun py_join :: "string \<Rightarrow> string list \<Rightarrow> string" where
  "py_join sep [] = []"
| "py_join sep [x] = x"
| "py_join sep (x # y # ys) = x @ sep @ py_join sep (y # ys)"

definition ProcessPcd :: "ext \<Rightarrow> DscParser \<Rightarrow> error + DscParser" where
  "ProcessPcd ex st =
     with_values st (\<lambda>v0 v1 v2.
       if ItemType st \<notin> {MODEL_PCD_FEATURE_FLAG, MODEL_PCD_FIXED_AT_BUILD} then
         (case ReplaceMacro ex v2 (DscParser_Macros st) False True of
            Inl e \<Rightarrow> Inl e
          | Inr v2' \<Rightarrow> Inr (st\<lparr>ValueList := Some [v0, v1, v2']\<rparr>))
       else
         (case AnalyzeDscPcd (PyIntParse ex) (RandomSample ex) v2 (ItemType st) [] of
            (ValList, Valid, Index) \<Rightarrow>
              if \<not> Valid then
                (if is_pcd_value_or_default (ItemType st) \<and> ValList ! 1 \<noteq> TAB_VOID
                    \<and> \<not> StructPattern_match (ValList ! 1) \<and> ValList ! 2 \<noteq> []
                 then Inl (FORMAT_INVALID,
                   ''Pcd format incorrect. The datum type info should be VOID* or a valid struct name.'')
                 else Inl (FORMAT_INVALID, ''Pcd format incorrect.''))
              else
                (let PcdValue = ValList ! Index;
                     outcome = (if PcdValue \<noteq> [] \<and> CHR ''.'' \<notin> set v0
                                then ValueExpressionReal ex PcdValue (DscParser_Macros st)
                                else RealRaises);
                     val = (case outcome of RealStr s \<Rightarrow> s | _ \<Rightarrow> PcdValue);
                     val = (if val = ''True'' then ''1'' else val);
                     val = (if val = ''False'' then ''0'' else val);
                     key = v0 @ ''.'' @ v1;
                     st1 = (if stack_enabled (DirectiveEvalStack st)
                            then st\<lparr>Globals := (Globals st)\<lparr>gPlatformPcds :=
                                                    (gPlatformPcds (Globals st))(key \<mapsto> PcdValue)\<rparr>,
                                    Symbols := (Symbols st)(key \<mapsto> PcdValue)\<rparr>
                            else st)
                 in Inr (st1\<lparr>ValueList :=
                               Some [v0, v1, (if outcome = RealOther then v2
                                              else py_join ''|'' (ValList[Index := val]))]\<rparr>))))"

definition ProcessComponent :: "ext \<Rightarrow> DscParser \<Rightarrow> error + DscParser" where
  "ProcessComponent ex st = ProcessPackages ex st"

text \<open>\<open>_Skip\<close> and \<open>_SkipUserExtension\<close>: \<open>self._ValueList[0:1] = [self._CurrentLine]\<close>.\<close>

definition Skip :: "ext \<Rightarrow> DscParser \<Rightarrow> error + DscParser" where
  "Skip ex st =
     (case ValueList st of
        None \<Rightarrow> Inl (PyTypeError, ''object does not support item assignment'')
      | Some vs \<Rightarrow> Inr (st\<lparr>ValueList := Some (CurrentLine st # drop 1 vs)\<rparr>))"

text \<open>The dictionary \<open>Processer\<close>; a model that is no key of it raises \<open>KeyError\<close>.\<close>

definition Processer :: "model \<Rightarrow> (ext \<Rightarrow> DscParser \<Rightarrow> error + DscParser) option" where
  "Processer m =
     (if m = MODEL_META_DATA_SECTION_HEADER then Some ProcessSectionHeader
      else if m = MODEL_META_DATA_SUBSECTION_HEADER then Some ProcessSubsectionHeader
      else if m \<in> {MODEL_META_DATA_HEADER, MODEL_META_DATA_DEFINE, MODEL_META_DATA_GLOBAL_DEFINE}
      then Some ProcessDefine
      else if m \<in> {MODEL_META_DATA_INCLUDE, MODEL_META_DATA_CONDITIONAL_STATEMENT_IF,
                    MODEL_META_DATA_CONDITIONAL_STATEMENT_ELSE,
                    MODEL_META_DATA_CONDITIONAL_STATEMENT_IFDEF,
                    MODEL_META_DATA_CONDITIONAL_STATEMENT_IFNDEF,
                    MODEL_META_DATA_CONDITIONAL_STATEMENT_ENDIF,
                    MODEL_META_DATA_CONDITIONAL_STATEMENT_ELSEIF}
      then Some ProcessDirective
      else if m = MODEL_META_DATA_PACKAGE then Some ProcessPackages
      else if m \<in> {MODEL_EFI_SKU_ID, MODEL_EFI_DEFAULT_STORES}
      then Some (\<lambda>ex. ReplaceMacro_all ex True)
      else if m \<in> {MODEL_EFI_LIBRARY_INSTANCE, MODEL_META_DATA_BUILD_OPTION}
      then Some (\<lambda>ex. ReplaceMacro_all ex False)
      else if m = MODEL_EFI_LIBRARY_CLASS then Some ProcessLibraryClass
      else if m \<in> {MODEL_PCD_FIXED_AT_BUILD, MODEL_PCD_PATCHABLE_IN_MODULE, MODEL_PCD_FEATURE_FLAG,
                    MODEL_PCD_DYNAMIC_DEFAULT, MODEL_PCD_DYNAMIC_HII, MODEL_PCD_DYNAMIC_VPD,
                    MODEL_PCD_DYNAMIC_EX_DEFAULT, MODEL_PCD_DYNAMIC_EX_HII, MODEL_PCD_DYNAMIC_EX_VPD}
      then Some ProcessPcd
      else if m = MODEL_META_DATA_COMPONENT then Some ProcessComponent
      else if m \<in> {MODEL_UNKNOWN, MODEL_META_DATA_USER_EXTENSION} then Some Skip
      else if m = MODEL_META_DATA_CONDITIONAL_STATEMENT_ERROR then Some ProcessError
      else None)"

text \<open>
  The inner loop for an \<open>!include\<close> record: the records that follow it on the same lines are
  skipped and their scopes are merged into \<open>self._Scope\<close>.  The result is the number of records
  skipped and the scope list.
\<close>

definition scope_of :: "DscLine \<Rightarrow> scope" where
  "scope_of r = (DscLine.Scope1 r, DscLine.Scope2 r, DscLine.Scope3 r)"

fun merge_include_scopes :: "int \<Rightarrow> int \<Rightarrow> DscLine list \<Rightarrow> scope list \<Rightarrow> nat \<times> scope list" where
  "merge_include_scopes LineStart LineEnd [] sc = (0, sc)"
| "merge_include_scopes LineStart LineEnd (Rec # rest) sc =
     (if LineStart = DscLine.StartLine Rec \<and> LineEnd = DscLine.EndLine Rec
      then (case merge_include_scopes LineStart LineEnd rest
                   (if scope_of Rec \<notin> set sc then sc @ [scope_of Rec] else sc) of
              (n, sc') \<Rightarrow> (Suc n, sc'))
      else (0, sc))"

text \<open>
  \<open>EvaluationException\<close> and \<open>MacroException\<close> raised by a processor are reported as
  \<open>FORMAT_INVALID\<close>; everything else passes.
\<close>

definition report_exception :: "error \<Rightarrow> error" where
  "report_exception e =
     (if fst e \<in> {EvaluationException, MacroException} then (FORMAT_INVALID, snd e) else e)"

text \<open>
  One iteration of the \<open>while\<close> loop of \<open>_PostProcess\<close>, entered with
  \<open>ContentIndex < len(Content)\<close>, in three parts: up to the call of the processor
  (\<open>PostProcess_enter\<close>), the call, and from the test of \<open>self._ValueList\<close> on
  (\<open>PostProcess_store\<close>).
\<close>

definition PostProcess_enter :: "DscParser \<Rightarrow> DscParser" where
  "PostProcess_enter st0 =
     (let item = Content st0 ! ContentIndex st0;
          Own = DscLine.BelongsToItem item;
          st = st0\<lparr>ItemType := DscLine.Model item, From := DscLine.FromItem item,
                   ContentIndex := ContentIndex st0 + 1, Scope := [scope_of item]\<rparr>;
          merged = (if ItemType st = MODEL_META_DATA_INCLUDE
                    then merge_include_scopes (DscLine.StartLine item) (DscLine.EndLine item)
                           (drop (ContentIndex st) (Content st)) (Scope st)
                    else (0, Scope st))
      in st\<lparr>ContentIndex := ContentIndex st + fst merged, Scope := snd merged,
            LineIndex := DscLine.StartLine item - 1,
            ValueList := Some [DscLine.Value1 item, DscLine.Value2 item, DscLine.Value3 item],
            InSubsection := (Own > 0 \<and> IdMapping st Own \<noteq> None)\<rparr>)"

definition PostProcess_store :: "DscLine \<Rightarrow> DscParser \<Rightarrow> error + DscParser" where
  "PostProcess_store item st =
     (case ValueList st of
        None \<Rightarrow> Inr st
      | Some vl \<Rightarrow>
          if length vl < 3 then Inl (PyIndexError, ''list index out of range'')
          else
            (let NewOwner = (case IdMapping st (DscLine.BelongsToItem item) of None \<Rightarrow> -1 | Some x \<Rightarrow> x);
                 en = stack_enabled (DirectiveEvalStack st);
                 ins = PlatformTable_Insert (Table st) (ItemType st) (vl ! 0) (vl ! 1) (vl ! 2)
                         (DscLine.Scope1 item) (DscLine.Scope2 item) (DscLine.Scope3 item)
                         NewOwner (From st) (LineIndex st + 1) (-1) (LineIndex st + 1) (-1)
                         [] [] [] en
             in Inr ((set_Table (fst ins) st)
                       \<lparr>MetaFileParser.Enabled := en, LastItem := snd ins,
                        IdMapping := (IdMapping st)(DscLine.ID item \<mapsto> snd ins)\<rparr>)))"

definition PostProcess_step :: "ext \<Rightarrow> DscParser \<Rightarrow> error + DscParser" where
  "PostProcess_step ex st0 =
     (let item = Content st0 ! ContentIndex st0;
          st = PostProcess_enter st0
      in case Processer (ItemType st) of
           None \<Rightarrow> Inl (PyKeyError, ''Processer'')
         | Some process \<Rightarrow>
            (case process ex st of
               Inl e \<Rightarrow> Inl (report_exception e)
             | Inr st \<Rightarrow> PostProcess_store item st))"

text \<open>
  The \<open>while\<close> loop.  An \<open>!include\<close> makes \<open>Content\<close> longer, so the loop need not end; it is
  run with fuel, and \<open>None\<close> means that the fuel did not suffice.
\<close>

fun PostProcess_loop :: "ext \<Rightarrow> nat \<Rightarrow> DscParser \<Rightarrow> (error + DscParser) option" where
  "PostProcess_loop ex fuel st =
     (if ContentIndex st < length (Content st) then
        (case fuel of
           0 \<Rightarrow> None
         | Suc n \<Rightarrow>
            (case PostProcess_step ex st of
               Inl e \<Rightarrow> Some (Inl e)
             | Inr st' \<Rightarrow> PostProcess_loop ex n st'))
      else Some (Inr st))"

text \<open>
  \<open>__RetrievePcdValue\<close>.  The inner \<open>while\<close> loop walks back from the line of the PCD to a line
  that starts with \<open>[\<close>; \<open>Content[Line - 1]\<close> raises \<open>IndexError\<close> when the index leaves the
  range \<open>-len .. len - 1\<close>.
\<close>

function find_section_line :: "string list \<Rightarrow> int \<Rightarrow> bool" where
  "find_section_line Lines Line =
     (let i = Line - 1; n = int (length Lines) in
      if i \<ge> n \<or> i < - n then False
      else if startswith (py_lstrip (Lines ! nat (if i < 0 then i + n else i))) ''['' then True
      else find_section_line Lines (Line - 1))"
  by pat_completeness auto
termination
  by (relation "measure (\<lambda>(Lines, Line). nat (Line + int (length Lines)))") auto

fun RetrievePcd_records :: "string list \<Rightarrow> DscLine list \<Rightarrow> string set \<Rightarrow> error + string set" where
  "RetrievePcd_records Lines [] known = Inr known"
| "RetrievePcd_records Lines (item # rest) known =
     (let Name = DscLine.Value1 item @ ''.'' @ DscLine.Value2 item in
      if Name \<in> known then RetrievePcd_records Lines rest known
      else if find_section_line Lines (DscLine.StartLine item)
      then RetrievePcd_records Lines rest (insert Name known)
      else Inl (PyIndexError, ''list index out of range''))"

definition RetrievePcdValue :: "ext \<Rightarrow> DscParser \<Rightarrow> error + DscParser" where
  "RetrievePcdValue ex st =
     (case MetaFileLines ex of
        None \<Rightarrow> Inl (FILE_READ_FAILURE, [])
      | Some Lines \<Rightarrow>
          (case RetrievePcd_records Lines
                  (concat (map (\<lambda>PcdType. PlatformTable_Query (RawTable st) PcdType None None (Some (-1)) None)
                     [MODEL_PCD_PATCHABLE_IN_MODULE, MODEL_PCD_DYNAMIC_DEFAULT, MODEL_PCD_DYNAMIC_HII,
                      MODEL_PCD_DYNAMIC_VPD, MODEL_PCD_DYNAMIC_EX_DEFAULT, MODEL_PCD_DYNAMIC_EX_HII,
                      MODEL_PCD_DYNAMIC_EX_VPD]))
                  (insert ''DSCFILE'' (gPlatformOtherPcds (Globals st))) of
             Inl e \<Rightarrow> Inl e
           | Inr known \<Rightarrow> Inr (st\<lparr>Globals := (Globals st)\<lparr>gPlatformOtherPcds := known\<rparr>\<rparr>)))"

text \<open>
  \<open>DscParser._PostProcess\<close>.  \<open>MetaFileStorage(self.MetaFile, MODEL_FILE_DSC, True)\<close> is a
  temporary storage, which is never cached: a new, empty \<open>PlatformTable\<close>.
\<close>

definition PostProcess :: "ext \<Rightarrow> nat \<Rightarrow> DscParser \<Rightarrow> (error + DscParser) option" where
  "PostProcess ex fuel st0 =
     (let st = st0\<lparr>PostTable := Some MetaFileTable_init, FileLocalMacros := Map.empty,
                   SectionsMacroDict := [], DirectiveStack := [], DirectiveEvalStack := [],
                   Globals := (Globals st0)\<lparr>gPlatformDefines := Map.empty\<rparr>\<rparr>
      in case RetrievePcdValue ex st of
           Inl e \<Rightarrow> Some (Inl e)
         | Inr st \<Rightarrow>
            (case PostProcess_loop ex fuel
                    (st\<lparr>Content := PlatformTable_GetAll (RawTable st), ContentIndex := 0,
                        InSubsection := False\<rparr>) of
               None \<Rightarrow> None
             | Some (Inl e) \<Rightarrow> Some (Inl e)
             | Some (Inr st) \<Rightarrow>
                 Some (Inr (st\<lparr>Globals := (Globals st)\<lparr>gPlatformDefines :=
                                   gPlatformDefines (Globals st) ++ FileLocalMacros st\<rparr>,
                               PostProcessed := True, Content := []\<rparr>))))"

subsection \<open>Construction of the parsers\<close>

text \<open>
  \<open>MetaFileParser.__init__\<close> with \<open>Owner\<close> and \<open>From\<close>; \<open>table_id\<close> is the value of
  \<open>GetTableID()\<close> that the constructor writes to the counter of the table.
\<close>

definition MetaFileParser_init ::
  "'line MetaFileTable \<Rightarrow> int \<Rightarrow> int \<Rightarrow> int \<Rightarrow> 'line MetaFileParser" where
  "MetaFileParser_init tab table_id Own Frm =
     \<lparr>RawTable = tab\<lparr>MetaFileTable.ID := table_id\<rparr>, PostTable = None,
      Defines = Map.empty, FileLocalMacros = Map.empty, SectionsMacroDict = [],
      Owner = [Own], From = Frm, ValueList = Some [[], [], [], [], []], Scope = [],
      LineIndex = 0, CurrentLine = [], SectionType = MODEL_UNKNOWN, SectionName = [],
      InSubsection = False, SubsectionType = MODEL_UNKNOWN, SubsectionName = [],
      ItemType = MODEL_UNKNOWN, LastItem = -1, Enabled = True, Finished = False,
      PostProcessed = False, Version = 0\<rparr>"

text \<open>\<open>InfParser.__init__\<close>; \<open>GetTableID\<close> of the base class is \<open>10**7\<close>.\<close>

definition InfParser_init :: "InfLine MetaFileTable \<Rightarrow> InfLine MetaFileParser" where
  "InfParser_init tab = MetaFileParser_init tab (10 ^ 7) (-1) (-1)"

text \<open>\<open>DscParser.__init__\<close>; \<open>GetTableID\<close> is \<open>(len(self.IncludedFiles) + 1) * (10**7)\<close>, and
  \<open>IdMapping\<close> starts as \<open>{-1: -1}\<close>.\<close>

definition DscParser_init :: "DscLine MetaFileTable \<Rightarrow> nat \<Rightarrow> int \<Rightarrow> int \<Rightarrow> GlobalData \<Rightarrow> DscParser" where
  "DscParser_init tab included_files Own Frm g =
     MetaFileParser.extend
       ((MetaFileParser_init tab ((int included_files + 1) * 10 ^ 7) Own Frm)\<lparr>Version := 0x00010005\<rparr>)
       (DscParser.fields [] [] (-1) Map.empty (Map.empty((-1) \<mapsto> (-1))) [] 0 g)"

text \<open>\<open>DecParser.__init__\<close>.\<close>

definition DecParser_init :: "DecLine MetaFileTable \<Rightarrow> DecParser" where
  "DecParser_init tab =
     MetaFileParser.extend
       ((MetaFileParser_init tab (10 ^ 7) (-1) (-1))\<lparr>Version := 0x00010005\<rparr>)
       (DecParser.fields [] [] [] 0)"

subsection \<open>An instance of the collaborators\<close>

text \<open>
  Modelled from the spec: \<open>GetSplitValueList\<close> of \<open>Common.StringUtils\<close>, which is not part of
  the sources at hand.  The spec: ``\<open>SplitValueList(line, delimiter, max_splits)\<close> splits
  respecting string literals and parenthesis nesting: the delimiter is ignored while inside
  quotes or inside \<open>(...)\<close>'', with the backslash as escape inside a string literal.  The
  fields are stripped; \<open>left\<close> is the number of splits that may still be made (\<open>None\<close>: no
  limit).
\<close>

fun SplitValueList_scan ::
  "char \<Rightarrow> nat option \<Rightarrow> bool \<Rightarrow> bool \<Rightarrow> bool \<Rightarrow> nat \<Rightarrow> string \<Rightarrow> string \<Rightarrow> string list" where
  "SplitValueList_scan d left inS inD esc depth cur [] = [py_strip cur]"
| "SplitValueList_scan d left inS inD esc depth cur (c # cs) =
     (if esc then SplitValueList_scan d left inS inD False depth (cur @ [c]) cs
      else if c = d \<and> \<not> inS \<and> \<not> inD \<and> depth = 0 \<and> left \<noteq> Some 0
      then py_strip cur # SplitValueList_scan d (map_option (\<lambda>n. n - 1) left) inS inD False depth [] cs
      else if c = BACKSLASH \<and> (inS \<or> inD)
      then SplitValueList_scan d left inS inD True depth (cur @ [c]) cs
      else if c = DQUOTE \<and> \<not> inS
      then SplitValueList_scan d left inS (\<not> inD) False depth (cur @ [c]) cs
      else if c = SQUOTE \<and> \<not> inD
      then SplitValueList_scan d left (\<not> inS) inD False depth (cur @ [c]) cs
      else if c = CHR ''('' \<and> \<not> inS \<and> \<not> inD
      then SplitValueList_scan d left inS inD False (Suc depth) (cur @ [c]) cs
      else if c = CHR '')'' \<and> \<not> inS \<and> \<not> inD
      then SplitValueList_scan d left inS inD False (depth - 1) (cur @ [c]) cs
      else SplitValueList_scan d left inS inD False depth (cur @ [c]) cs)"

definition SplitValueList :: "string \<Rightarrow> char \<Rightarrow> int \<Rightarrow> string list" where
  "SplitValueList line d max_splits =
     SplitValueList_scan d (if max_splits > 0 then Some (nat max_splits) else None)
       False False False 0 [] line"

text \<open>
  Modelled from the spec: \<open>ReplaceMacro\<close> of \<open>Common.StringUtils\<close>, which is not part of the
  sources at hand, on the strings that hold no macro reference.  The spec: ``substitute
  \<open>$(NAME)\<close> tokens in the value fields using the merged environment''; a string without the
  token opener \<open>$(\<close> has nothing to substitute and is returned as it is.  A string with a
  token is outside this instance, which reports it as \<open>MacroException\<close>.
\<close>

definition ReplaceMacro_no_reference :: "string \<Rightarrow> macros \<Rightarrow> bool \<Rightarrow> bool \<Rightarrow> error + string" where
  "ReplaceMacro_no_reference s Macros SelfReplacement RaiseError =
     (if py_contains s ''$('' then Inl (MacroException, s) else Inr s)"

text \<open>
  The expression evaluator is outside the parser; this instance knows the two literals that the
  examples use, \<open>0\<close> (false) and \<open>1\<close> (true), and reports any other expression as a bad
  expression.
\<close>

definition ValueExpression_literal :: "string \<Rightarrow> macros \<Rightarrow> expr_outcome" where
  "ValueExpression_literal e Macros =
     (if e = ''0'' then ExprResult False
      else if e = ''1'' then ExprResult True
      else ExprRaises (EvaluationException, e))"

text \<open>
  The entries of \<open>DscParser.DataType\<close> for the sections and directives named in the examples;
  the keys are the upper-case section names and keywords.
\<close>

definition DscParser_DataType :: "string \<rightharpoonup> model" where
  "DscParser_DataType =
     map_of [(''DEFINES'', MODEL_META_DATA_HEADER),
             (''DEFINE'', MODEL_META_DATA_DEFINE),
             (''EDK_GLOBAL'', MODEL_META_DATA_GLOBAL_DEFINE),
             (''SKUIDS'', MODEL_EFI_SKU_ID),
             (''LIBRARYCLASSES'', MODEL_EFI_LIBRARY_CLASS),
             (''COMPONENTS'', MODEL_META_DATA_COMPONENT),
             (''PCDSFIXEDATBUILD'', MODEL_PCD_FIXED_AT_BUILD),
             (''PCDSFEATUREFLAG'', MODEL_PCD_FEATURE_FLAG),
             (''!INCLUDE'', MODEL_META_DATA_INCLUDE),
             (''!IF'', MODEL_META_DATA_CONDITIONAL_STATEMENT_IF),
             (''!IFDEF'', MODEL_META_DATA_CONDITIONAL_STATEMENT_IFDEF),
             (''!IFNDEF'', MODEL_META_DATA_CONDITIONAL_STATEMENT_IFNDEF),
             (''!ELSEIF'', MODEL_META_DATA_CONDITIONAL_STATEMENT_ELSEIF),
             (''!ELSE'', MODEL_META_DATA_CONDITIONAL_STATEMENT_ELSE),
             (''!ENDIF'', MODEL_META_DATA_CONDITIONAL_STATEMENT_ENDIF),
             (''!ERROR'', MODEL_META_DATA_CONDITIONAL_STATEMENT_ERROR)]"

text \<open>
  The instance: no file can be included, the evaluation of a PCD value raises (and is
  swallowed), \<open>int\<close> parses nothing, and the meta file has the given lines.
\<close>

definition example_ext :: "string list option \<Rightarrow> ext" where
  "example_ext file_lines =
     \<lparr>GetSplitValueList = SplitValueList,
      ReplaceMacro = ReplaceMacro_no_reference,
      ValueExpression = ValueExpression_literal,
      ValueExpressionReal = (\<lambda>e Macros. RealRaises),
      IncludeFile = (\<lambda>req. Inl (FILE_NOT_FOUND, IncludedPath req)),
      PyIntParse = (\<lambda>base s. None),
      RandomSample = ''k3Xw9QzB'',
      DataType = DscParser_DataType,
      SECTIONS_HAVE_ITEM_AFTER_ARCH_SET = {},
      SECTIONS_HAVE_ITEM_PCD_SET = {},
      TAB_DEC_DEFINES_UPPER = ''DEFINES'',
      PRIVATE_TAG_SECTIONS = [''INCLUDES'', ''GUIDS'', ''PROTOCOLS'', ''PPIS''],
      MetaFileLines = file_lines\<rparr>"

definition GlobalData_empty :: GlobalData where
  "GlobalData_empty =
     \<lparr>gGlobalDefines = Map.empty, gCommandLineDefines = Map.empty, gEdkGlobal = Map.empty,
      gPlatformDefines = Map.empty, gPlatformPcds = Map.empty, gPlatformOtherPcds = {},
      BuildOptionPcd = []\<rparr>"

text \<open>
  The raw records of the platform file
  \<^verbatim>\<open>[Defines]\<close>, \<^verbatim>\<open>!ifdef FOO\<close>, \<^verbatim>\<open>  PLATFORM_NAME = A\<close>, \<^verbatim>\<open>!endif\<close>, \<^verbatim>\<open>  EDK_GLOBAL FOO = 1\<close>
  as \<open>DscParser.Start\<close> stores them (one record per line, scope \<open>COMMON\<close>, no owner, not
  included), followed by the end flag.
\<close>

definition ifdef_file :: "string list" where
  "ifdef_file = [''[Defines]'', ''!ifdef FOO'', ''  PLATFORM_NAME = A'', ''!endif'', ''  EDK_GLOBAL FOO = 1'']"

definition raw_row :: "int \<Rightarrow> model \<Rightarrow> string \<Rightarrow> string \<Rightarrow> string \<Rightarrow> int \<Rightarrow> DscLine" where
  "raw_row i m v1 v2 v3 line =
     DscLine.make i m v1 v2 v3 ''COMMON'' ''COMMON'' ''COMMON'' (-1) (-1) line (-1) line (-1) [] [] [] True"

definition ifdef_raw_table :: "DscLine MetaFileTable" where
  "ifdef_raw_table =
     \<lparr>CurrentContent =
        [raw_row 10000001 MODEL_META_DATA_SECTION_HEADER ''DEFINES'' [] [] 1,
         raw_row 10000002 MODEL_META_DATA_CONDITIONAL_STATEMENT_IFDEF ''!ifdef'' ''FOO'' [] 2,
         raw_row 10000003 MODEL_META_DATA_HEADER [] ''PLATFORM_NAME'' ''A'' 3,
         raw_row 10000004 MODEL_META_DATA_CONDITIONAL_STATEMENT_ENDIF ''!endif'' [] [] 4,
         raw_row 10000005 MODEL_META_DATA_GLOBAL_DEFINE ''EDK_GLOBAL'' ''FOO'' ''1'' 5,
         PlatformTable_DUMMY],
      MetaFileTable.ID = 10000005\<rparr>"

definition ifdef_parser :: DscParser where
  "ifdef_parser =
     (DscParser_init MetaFileTable_init 0 (-1) (-1) GlobalData_empty)
       \<lparr>RawTable := ifdef_raw_table, Finished := True\<rparr>"

subsection \<open>The scope that a header item declares\<close>








subsection \<open>Directive records\<close>









text \<open>A loop body that does nothing; \<open>Start\<close> does not run its loop body on a file without
  lines.\<close>

definition idle_body :: "nat \<Rightarrow> string list \<Rightarrow> 's \<Rightarrow> error + 's" where
  "idle_body i lines s = Inr s"





subsection \<open>States of the examples\<close>




text \<open>
  The same for the platform file with \<^verbatim>\<open>!ifdef FOO\<close>: the state when the next record is the
  \<^verbatim>\<open>!ifdef\<close> record (one iteration done), and the state after the iteration that processes it.
\<close>

definition ifdef_ext :: ext where
  "ifdef_ext = example_ext (Some ifdef_file)"











text \<open>The collaborators for a meta file without lines.\<close>

definition empty_ext :: ext where
  "empty_ext = example_ext (Some [])"

section \<open>Verified properties\<close>

lemma InsertRows_counting:
  assumes step: "\<And>t r t1 i. G t \<Longrightarrow> ins t r = (t1, i) \<Longrightarrow>
            i = MetaFileTable.ID t + 1 \<and> MetaFileTable.ID t1 = i \<and>
            (\<exists>row. CurrentContent t1 = CurrentContent t @ [row] \<and> idf row = i)"
    and guard: "\<And>t n. MetaFileTable.ID t + n < B \<Longrightarrow> 0 < n \<Longrightarrow> G t"
  shows "InsertRows ins t rs = (t', ids) \<Longrightarrow> MetaFileTable.ID t + int (length rs) < B \<Longrightarrow>
     ids = map (\<lambda>k. MetaFileTable.ID t + 1 + int k) [0..<length rs] \<and>
     MetaFileTable.ID t' = MetaFileTable.ID t + int (length rs) \<and>
     (ids_below_counter idf t \<longrightarrow> ids_below_counter idf t')"
proof (induction rs arbitrary: t t' ids)
  case Nil then show ?case by simp
next
  case (Cons r rs)
  obtain t1 i where 1: "ins t r = (t1, i)" by force
  obtain t2 ids2 where 2: "InsertRows ins t1 rs = (t2, ids2)" by force
  from Cons.prems 1 2 have e: "t' = t2" "ids = i # ids2" by auto
  have g: "G t" using guard[of t "int (length (r # rs))"] Cons.prems(2) by simp
  note s = step[OF g 1]
  have b: "MetaFileTable.ID t1 + int (length rs) < B" using s Cons.prems(2) by simp
  have inv: "ids_below_counter idf t \<Longrightarrow> ids_below_counter idf t1"
    using s by (fastforce simp: ids_below_counter_def list_all_iff)
  from s Cons.IH[OF 2 b] e inv
  show ?case by (simp add: upt_conv_Cons map_Suc_upt[symmetric] del: upt_Suc)
qed

lemma ids_strictly_increasing:
  "sorted_wrt (<) (map (\<lambda>k. (c::int) + 1 + int k) [0..<n])"
  by (simp add: sorted_wrt_map sorted_wrt_iff_nth_less)

lemma PlatformTable_InsertRow_eq:
  "PlatformTable_InsertRow t r = (t1, i) \<Longrightarrow>
     i = MetaFileTable.ID t + 1 \<and> MetaFileTable.ID t1 = i \<and>
     (\<exists>row. CurrentContent t1 = CurrentContent t @ [row] \<and> DscLine.ID row = i)"
  by (auto simp: PlatformTable_InsertRow_def PlatformTable_Insert_def Let_def ID_STEP_def DscLine.make_def)

lemma PackageTable_InsertRow_eq:
  "PackageTable_InsertRow t r = (t1, i) \<Longrightarrow>
     i = MetaFileTable.ID t + 1 \<and> MetaFileTable.ID t1 = i \<and>
     (\<exists>row. CurrentContent t1 = CurrentContent t @ [row] \<and> DecLine.ID row = i)"
  by (auto simp: PackageTable_InsertRow_def PackageTable_Insert_def Let_def ID_STEP_def DecLine.make_def)

lemma ModuleTable_InsertRow_eq:
  "MetaFileTable.ID t + 1 < mfi + ID_MAX \<Longrightarrow> ModuleTable_InsertRow mfi t r = (t1, i) \<Longrightarrow>
     i = MetaFileTable.ID t + 1 \<and> MetaFileTable.ID t1 = i \<and>
     (\<exists>row. CurrentContent t1 = CurrentContent t @ [row] \<and> InfLine.ID row = i)"
  by (auto simp: ModuleTable_InsertRow_def ModuleTable_Insert_def Let_def ID_STEP_def InfLine.make_def)

lemma ModuleTable_Insert_wraps:
  "MetaFileTable.ID t + 1 \<ge> mfi + ID_MAX \<Longrightarrow>
     snd (ModuleTable_Insert mfi t m v1 v2 v3 s1 s2 b sl sc el ec en) = mfi + 1"
  by (simp add: ModuleTable_Insert_def Let_def ID_STEP_def)

text \<open>
  Claim C3 (ids strictly increase, the counter grows by one per insertion, live rows have
  distinct ids), as the code has it.  In the platform and the package table every insertion
  adds exactly one to the counter and returns it, so the ids of a sequence of insertions are
  \<open>ID + 1, ID + 2, ...\<close>, strictly increasing, and rows whose ids are distinct and at most the
  counter stay so.  In the module table the same holds as long as the counter stays below
  \<open>MODEL_FILE_INF + 99999999\<close>; when the incremented counter reaches that bound it is reset
  to \<open>MODEL_FILE_INF + 1\<close> (lemma \<open>ModuleTable_Insert_wraps\<close>).
\<close>

theorem insert_ids_increase:
  "(InsertRows PlatformTable_InsertRow td rds = (td', idd) \<longrightarrow>
      idd = map (\<lambda>k. MetaFileTable.ID td + 1 + int k) [0..<length rds] \<and> sorted_wrt (<) idd \<and>
      MetaFileTable.ID td' = MetaFileTable.ID td + int (length rds) \<and>
      (ids_below_counter DscLine.ID td \<longrightarrow> ids_below_counter DscLine.ID td')) \<and>
   (InsertRows PackageTable_InsertRow tp rps = (tp', idp) \<longrightarrow>
      idp = map (\<lambda>k. MetaFileTable.ID tp + 1 + int k) [0..<length rps] \<and> sorted_wrt (<) idp \<and>
      MetaFileTable.ID tp' = MetaFileTable.ID tp + int (length rps) \<and>
      (ids_below_counter DecLine.ID tp \<longrightarrow> ids_below_counter DecLine.ID tp')) \<and>
   (MetaFileTable.ID ti + int (length ris) < mfi + ID_MAX \<and>
    InsertRows (ModuleTable_InsertRow mfi) ti ris = (ti', idi) \<longrightarrow>
      idi = map (\<lambda>k. MetaFileTable.ID ti + 1 + int k) [0..<length ris] \<and> sorted_wrt (<) idi \<and>
      MetaFileTable.ID ti' = MetaFileTable.ID ti + int (length ris) \<and>
      (ids_below_counter InfLine.ID ti \<longrightarrow> ids_below_counter InfLine.ID ti'))"
proof (intro conjI impI)
  assume a: "InsertRows PlatformTable_InsertRow td rds = (td', idd)"
  have r: "idd = map (\<lambda>k. MetaFileTable.ID td + 1 + int k) [0..<length rds] \<and>
     MetaFileTable.ID td' = MetaFileTable.ID td + int (length rds) \<and>
     (ids_below_counter DscLine.ID td \<longrightarrow> ids_below_counter DscLine.ID td')"
    by (rule InsertRows_counting[where G="\<lambda>_. True" and B="MetaFileTable.ID td + int (length rds) + 1", OF _ _ a])
       (auto dest: PlatformTable_InsertRow_eq)
  show "idd = map (\<lambda>k. MetaFileTable.ID td + 1 + int k) [0..<length rds]" using r by simp
  then show "sorted_wrt (<) idd" using ids_strictly_increasing by simp
  show "MetaFileTable.ID td' = MetaFileTable.ID td + int (length rds)" using r by simp
  show "ids_below_counter DscLine.ID td'" if "ids_below_counter DscLine.ID td" using r that by simp
next
  assume a: "InsertRows PackageTable_InsertRow tp rps = (tp', idp)"
  have r: "idp = map (\<lambda>k. MetaFileTable.ID tp + 1 + int k) [0..<length rps] \<and>
     MetaFileTable.ID tp' = MetaFileTable.ID tp + int (length rps) \<and>
     (ids_below_counter DecLine.ID tp \<longrightarrow> ids_below_counter DecLine.ID tp')"
    by (rule InsertRows_counting[where G="\<lambda>_. True" and B="MetaFileTable.ID tp + int (length rps) + 1", OF _ _ a])
       (auto dest: PackageTable_InsertRow_eq)
  show "idp = map (\<lambda>k. MetaFileTable.ID tp + 1 + int k) [0..<length rps]" using r by simp
  then show "sorted_wrt (<) idp" using ids_strictly_increasing by simp
  show "MetaFileTable.ID tp' = MetaFileTable.ID tp + int (length rps)" using r by simp
  show "ids_below_counter DecLine.ID tp'" if "ids_below_counter DecLine.ID tp" using r that by simp
next
  assume "MetaFileTable.ID ti + int (length ris) < mfi + ID_MAX \<and>
    InsertRows (ModuleTable_InsertRow mfi) ti ris = (ti', idi)"
  then have b: "MetaFileTable.ID ti + int (length ris) < mfi + ID_MAX"
    and a: "InsertRows (ModuleTable_InsertRow mfi) ti ris = (ti', idi)" by simp_all
  have r: "idi = map (\<lambda>k. MetaFileTable.ID ti + 1 + int k) [0..<length ris] \<and>
     MetaFileTable.ID ti' = MetaFileTable.ID ti + int (length ris) \<and>
     (ids_below_counter InfLine.ID ti \<longrightarrow> ids_below_counter InfLine.ID ti')"
    by (rule InsertRows_counting[where G="\<lambda>t. MetaFileTable.ID t + 1 < mfi + ID_MAX" and B="mfi + ID_MAX", OF _ _ a b])
       (auto dest: ModuleTable_InsertRow_eq)
  show "idi = map (\<lambda>k. MetaFileTable.ID ti + 1 + int k) [0..<length ris]" using r by simp
  then show "sorted_wrt (<) idi" using ids_strictly_increasing by simp
  show "MetaFileTable.ID ti' = MetaFileTable.ID ti + int (length ris)" using r by simp
  show "ids_below_counter InfLine.ID ti'" if "ids_below_counter InfLine.ID ti" using r that by simp
qed

text \<open>
  The claim as stated fails for the module table: with \<open>MODEL_FILE_INF = 1011\<close> and the counter
  at 100001008, two successive insertions return 100001009 and then 1012.
\<close>

theorem insert_ids_counterexample:
  "snd (InsertRows (ModuleTable_InsertRow 1011) \<lparr>CurrentContent = [], MetaFileTable.ID = 100001008\<rparr>
          [InfLine.make 0 MODEL_EFI_SOURCE_FILE ''a.c'' '''' '''' ''COMMON'' ''COMMON'' (-1) 1 (-1) 1 (-1) True,
           InfLine.make 0 MODEL_EFI_SOURCE_FILE ''b.c'' '''' '''' ''COMMON'' ''COMMON'' (-1) 2 (-1) 2 (-1) True])
   = [100001009, 1012]"
  by (simp add: ModuleTable_InsertRow_def ModuleTable_Insert_def Let_def ID_STEP_def ID_MAX_def InfLine.make_def)

lemma PlatformTable_Query_enabled:
  "r \<in> set (PlatformTable_Query t m S1 S2 B F) \<Longrightarrow>
     DscLine.Enabled r \<and> DscLine.Model r = m \<and> r \<in> set (CurrentContent t)"
  by (auto simp: PlatformTable_Query_def Let_def split: option.splits if_splits)

lemma ModuleTable_Query_enabled:
  "r \<in> set (ModuleTable_Query t m A P B) \<Longrightarrow>
     InfLine.Enabled r \<and> InfLine.Model r = m \<and> r \<in> set (CurrentContent t)"
  by (auto simp: ModuleTable_Query_def Let_def split: option.splits if_splits)

text \<open>
  Claim C1 (enabled = false records are omitted by query, for every shape).  The module and
  platform tables filter on \<open>item.Enabled\<close> (lemmas \<open>ModuleTable_Query_enabled\<close> and
  \<open>PlatformTable_Query_enabled\<close>).  The package table filters on \<open>item.Enabled >= 0\<close>,
  which the Python value \<open>False\<close> satisfies: a row inserted with \<open>Enabled = False\<close> is
  returned by \<open>PackageTable.Query\<close>.
\<close>

theorem PackageTable_Query_returns_disabled:
  "PackageTable_Query
     (fst (PackageTable_Insert MetaFileTable_init MODEL_EFI_GUID ''gFooGuid'' ''{0x1}'' ''''
             ''COMMON'' ''COMMON'' (-1) 3 (-1) 3 (-1) (PyBool False)))
     MODEL_EFI_GUID None
   = [DecLine.make 1 MODEL_EFI_GUID ''gFooGuid'' ''{0x1}'' '''' ''COMMON'' ''COMMON''
        (-1) 3 (-1) 3 (-1) (PyBool False)]"
  by (simp add: PackageTable_Query_def PackageTable_Insert_def MetaFileTable_init_def Let_def
        ID_STEP_def DecLine.make_def py_strip_def py_rstrip_def py_lstrip_def py_isspace_def)

text \<open>
  Claim C10.  A platform-table query without a \<open>BelongsToItem\<close> filter returns only rows
  whose \<open>BelongsToItem\<close> is negative; a row whose \<open>BelongsToItem\<close> is the (non-negative)
  id of its parent component is returned only by a query that passes exactly that id, and an
  enabled row is returned by the query for its model with its parent's id.
\<close>

theorem PlatformTable_Query_belongs:
  "(r \<in> set (PlatformTable_Query t m S1 S2 None F) \<longrightarrow> DscLine.BelongsToItem r < 0) \<and>
   (r \<in> set (PlatformTable_Query t m S1 S2 B F) \<and> 0 \<le> DscLine.BelongsToItem r
      \<longrightarrow> B = Some (DscLine.BelongsToItem r)) \<and>
   (r \<in> set (CurrentContent t) \<and> DscLine.Enabled r
      \<longrightarrow> r \<in> set (PlatformTable_Query t (DscLine.Model r) None None (Some (DscLine.BelongsToItem r)) None))"
  by (auto simp: PlatformTable_Query_def Let_def split: option.splits if_splits)

text \<open>
  A component row with id 1 and a library-class row of its sub-section: the sub-section row is
  returned by the query with \<open>BelongsToItem = 1\<close> and not by the default query.
\<close>

theorem PlatformTable_Query_belongs_witness:
  "DscLine.make 2 MODEL_EFI_LIBRARY_CLASS ''PcdLib'' ''Lib.inf'' '''' ''COMMON'' ''COMMON'' ''COMMON''
       1 (-1) 5 (-1) 5 (-1) '''' '''' '''' True
     \<in> set (PlatformTable_Query
          \<lparr>CurrentContent =
             [DscLine.make 1 MODEL_META_DATA_COMPONENT ''A.inf'' '''' '''' ''COMMON'' ''COMMON'' ''COMMON''
                (-1) (-1) 4 (-1) 4 (-1) '''' '''' '''' True,
              DscLine.make 2 MODEL_EFI_LIBRARY_CLASS ''PcdLib'' ''Lib.inf'' '''' ''COMMON'' ''COMMON'' ''COMMON''
                1 (-1) 5 (-1) 5 (-1) '''' '''' '''' True],
           MetaFileTable.ID = 2\<rparr>
          MODEL_EFI_LIBRARY_CLASS None None (Some 1) None) \<and>
   DscLine.make 2 MODEL_EFI_LIBRARY_CLASS ''PcdLib'' ''Lib.inf'' '''' ''COMMON'' ''COMMON'' ''COMMON''
       1 (-1) 5 (-1) 5 (-1) '''' '''' '''' True
     \<notin> set (PlatformTable_Query
          \<lparr>CurrentContent =
             [DscLine.make 1 MODEL_META_DATA_COMPONENT ''A.inf'' '''' '''' ''COMMON'' ''COMMON'' ''COMMON''
                (-1) (-1) 4 (-1) 4 (-1) '''' '''' '''' True,
              DscLine.make 2 MODEL_EFI_LIBRARY_CLASS ''PcdLib'' ''Lib.inf'' '''' ''COMMON'' ''COMMON'' ''COMMON''
                1 (-1) 5 (-1) 5 (-1) '''' '''' '''' True],
           MetaFileTable.ID = 2\<rparr>
          MODEL_EFI_LIBRARY_CLASS None None None None)"
  using PlatformTable_Query_belongs
    [of "DscLine.make 2 MODEL_EFI_LIBRARY_CLASS ''PcdLib'' ''Lib.inf'' '''' ''COMMON'' ''COMMON'' ''COMMON''
           1 (-1) 5 (-1) 5 (-1) '''' '''' '''' True"
        "\<lparr>CurrentContent =
             [DscLine.make 1 MODEL_META_DATA_COMPONENT ''A.inf'' '''' '''' ''COMMON'' ''COMMON'' ''COMMON''
                (-1) (-1) 4 (-1) 4 (-1) '''' '''' '''' True,
              DscLine.make 2 MODEL_EFI_LIBRARY_CLASS ''PcdLib'' ''Lib.inf'' '''' ''COMMON'' ''COMMON'' ''COMMON''
                1 (-1) 5 (-1) 5 (-1) '''' '''' '''' True],
           MetaFileTable.ID = 2\<rparr>"
        MODEL_EFI_LIBRARY_CLASS None None None]
  by (auto simp: DscLine.make_def)

text \<open>
  The three hypotheses of \<open>insert_ids_increase\<close> hold for two insertions into a fresh table of
  each shape, where the ids returned are 1 and 2.
\<close>

theorem insert_ids_increase_witness:
  "snd (InsertRows PlatformTable_InsertRow MetaFileTable_init
          [DscLine.make 0 MODEL_META_DATA_COMPONENT ''A.inf'' '''' '''' ''COMMON'' ''COMMON'' ''COMMON''
             (-1) (-1) 4 (-1) 4 (-1) '''' '''' '''' True,
           DscLine.make 0 MODEL_META_DATA_COMPONENT ''B.inf'' '''' '''' ''COMMON'' ''COMMON'' ''COMMON''
             (-1) (-1) 5 (-1) 5 (-1) '''' '''' '''' True]) = [1, 2] \<and>
   ids_below_counter DscLine.ID (fst (InsertRows PlatformTable_InsertRow MetaFileTable_init
          [DscLine.make 0 MODEL_META_DATA_COMPONENT ''A.inf'' '''' '''' ''COMMON'' ''COMMON'' ''COMMON''
             (-1) (-1) 4 (-1) 4 (-1) '''' '''' '''' True,
           DscLine.make 0 MODEL_META_DATA_COMPONENT ''B.inf'' '''' '''' ''COMMON'' ''COMMON'' ''COMMON''
             (-1) (-1) 5 (-1) 5 (-1) '''' '''' '''' True])) \<and>
   snd (InsertRows PackageTable_InsertRow MetaFileTable_init
          [DecLine.make 0 MODEL_EFI_GUID ''gA'' ''{0x1}'' '''' ''COMMON'' ''COMMON'' (-1) 3 (-1) 3 (-1) (PyBool True),
           DecLine.make 0 MODEL_EFI_GUID ''gB'' ''{0x2}'' '''' ''COMMON'' ''COMMON'' (-1) 4 (-1) 4 (-1) (PyBool True)])
     = [1, 2] \<and>
   ids_below_counter DecLine.ID (fst (InsertRows PackageTable_InsertRow MetaFileTable_init
          [DecLine.make 0 MODEL_EFI_GUID ''gA'' ''{0x1}'' '''' ''COMMON'' ''COMMON'' (-1) 3 (-1) 3 (-1) (PyBool True),
           DecLine.make 0 MODEL_EFI_GUID ''gB'' ''{0x2}'' '''' ''COMMON'' ''COMMON'' (-1) 4 (-1) 4 (-1) (PyBool True)])) \<and>
   MetaFileTable.ID (MetaFileTable_init :: InfLine MetaFileTable) + int (length
          [InfLine.make 0 MODEL_EFI_SOURCE_FILE ''a.c'' '''' '''' ''COMMON'' ''COMMON'' (-1) 1 (-1) 1 (-1) True,
           InfLine.make 0 MODEL_EFI_SOURCE_FILE ''b.c'' '''' '''' ''COMMON'' ''COMMON'' (-1) 2 (-1) 2 (-1) True])
      < 1011 + ID_MAX \<and>
   snd (InsertRows (ModuleTable_InsertRow 1011) MetaFileTable_init
          [InfLine.make 0 MODEL_EFI_SOURCE_FILE ''a.c'' '''' '''' ''COMMON'' ''COMMON'' (-1) 1 (-1) 1 (-1) True,
           InfLine.make 0 MODEL_EFI_SOURCE_FILE ''b.c'' '''' '''' ''COMMON'' ''COMMON'' (-1) 2 (-1) 2 (-1) True])
     = [1, 2] \<and>
   ids_below_counter InfLine.ID (fst (InsertRows (ModuleTable_InsertRow 1011) MetaFileTable_init
          [InfLine.make 0 MODEL_EFI_SOURCE_FILE ''a.c'' '''' '''' ''COMMON'' ''COMMON'' (-1) 1 (-1) 1 (-1) True,
           InfLine.make 0 MODEL_EFI_SOURCE_FILE ''b.c'' '''' '''' ''COMMON'' ''COMMON'' (-1) 2 (-1) 2 (-1) True]))"
proof -
  let ?td = "MetaFileTable_init :: DscLine MetaFileTable"
  let ?tp = "MetaFileTable_init :: DecLine MetaFileTable"
  let ?ti = "MetaFileTable_init :: InfLine MetaFileTable"
  let ?rd = "[DscLine.make 0 MODEL_META_DATA_COMPONENT ''A.inf'' '''' '''' ''COMMON'' ''COMMON'' ''COMMON''
             (-1) (-1) 4 (-1) 4 (-1) '''' '''' '''' True,
           DscLine.make 0 MODEL_META_DATA_COMPONENT ''B.inf'' '''' '''' ''COMMON'' ''COMMON'' ''COMMON''
             (-1) (-1) 5 (-1) 5 (-1) '''' '''' '''' True]"
  let ?rp = "[DecLine.make 0 MODEL_EFI_GUID ''gA'' ''{0x1}'' '''' ''COMMON'' ''COMMON'' (-1) 3 (-1) 3 (-1) (PyBool True),
           DecLine.make 0 MODEL_EFI_GUID ''gB'' ''{0x2}'' '''' ''COMMON'' ''COMMON'' (-1) 4 (-1) 4 (-1) (PyBool True)]"
  let ?ri = "[InfLine.make 0 MODEL_EFI_SOURCE_FILE ''a.c'' '''' '''' ''COMMON'' ''COMMON'' (-1) 1 (-1) 1 (-1) True,
           InfLine.make 0 MODEL_EFI_SOURCE_FILE ''b.c'' '''' '''' ''COMMON'' ''COMMON'' (-1) 2 (-1) 2 (-1) True]"
  have i0: "ids_below_counter DscLine.ID ?td" "ids_below_counter DecLine.ID ?tp"
    "ids_below_counter InfLine.ID ?ti"
    by (simp_all add: ids_below_counter_def MetaFileTable_init_def)
  have g: "MetaFileTable.ID ?ti + int (length ?ri) < 1011 + ID_MAX"
    by (simp add: MetaFileTable_init_def ID_MAX_def)
  have z: "MetaFileTable.ID ?td = 0" "MetaFileTable.ID ?tp = 0" "MetaFileTable.ID ?ti = 0"
    by (simp_all add: MetaFileTable_init_def)
  from insert_ids_increase
    [of ?td ?rd "fst (InsertRows PlatformTable_InsertRow ?td ?rd)"
        "snd (InsertRows PlatformTable_InsertRow ?td ?rd)"
        ?tp ?rp "fst (InsertRows PackageTable_InsertRow ?tp ?rp)"
        "snd (InsertRows PackageTable_InsertRow ?tp ?rp)"
        ?ti ?ri 1011 "fst (InsertRows (ModuleTable_InsertRow 1011) ?ti ?ri)"
        "snd (InsertRows (ModuleTable_InsertRow 1011) ?ti ?ri)"]
    i0 g z
  show ?thesis by (simp add: upt_conv_Cons del: InsertRows.simps)
qed

lemmas str_simps = py_strip_def py_rstrip_def py_lstrip_def py_isspace_def startswith_def endswith_def
  DQUOTE_def SQUOTE_def BACKSLASH_def NEWLINE_def TAB_VALUE_SPLIT_def py_find_char_def

text \<open>
  Claim C8 (the field split never splits on a delimiter inside a quoted string or inside
  parentheses).  The quote test reads \<open>Data[Index - 1]\<close>, which at index 0 is the last
  character: for the value made of the literal \<open>"a|b"\<close> followed by one backslash the opening
  quote is taken for an escaped one, and the delimiter inside the literal splits the value into
  two fields.
\<close>

theorem AnalyzePcdExpression_splits_inside_string:
  "AnalyzePcdExpression ''k3Xw9QzB'' [DQUOTE, CHR ''a'', CHR ''|'', CHR ''b'', DQUOTE, BACKSLASH]
     = [[DQUOTE, CHR ''a''], [CHR ''b'', DQUOTE, BACKSLASH]]"
  by (simp add: AnalyzePcdExpression_def Let_def str_simps)

text \<open>The example of the claim: \<open>L"a|b"|VOID*|8\<close> gives three fields.\<close>

lemma AnalyzePcdExpression_example:
  "AnalyzePcdExpression ''k3Xw9QzB'' ''L\"a|b\"|VOID*|8'' = [''L\"a|b\"'', ''VOID*'', ''8'']"
  by (simp add: AnalyzePcdExpression_def Let_def str_simps)

text \<open>
  Claim C9 (a \<open>VOID*\<close> value is accepted only if it is enclosed in quotes or braces).  In the
  test of the form of the value, \<open>startswith("L'") or startswith("'") and endswith("'")\<close>
  binds as \<open>A or (B and C)\<close>: a value that starts with \<open>L'\<close> is accepted whatever its end.
\<close>

theorem CheckPcdDatum_accepts_unterminated:
  "CheckPcdDatum py_int ''VOID*'' ''L'abc'' = (True, NoCause)"
  by (simp add: CheckPcdDatum_def TAB_VOID_def ValueRe_match_def str_simps)




































lemma Table_set_Table:
  "PostTable st \<noteq> None \<Longrightarrow>
     Table (set_Table t st) = t \<and> RawTable (set_Table t st) = RawTable st \<and>
     PostTable (set_Table t st) \<noteq> None"
  by (auto simp: Table_def set_Table_def)



declare PostProcess_loop.simps [simp del]












text \<open>
  Claim C4 (post-processing is idempotent).  \<open>_PostProcess\<close> starts each run with fresh file
  macros and platform defines, and keeps \<open>GlobalData.gEdkGlobal\<close>, to which the
  \<open>EDK_GLOBAL\<close> record of the first run has added \<open>FOO\<close>.  On the platform file \<^verbatim>\<open>[Defines]\<close>,
  \<^verbatim>\<open>!ifdef FOO\<close>, \<^verbatim>\<open>PLATFORM_NAME = A\<close>, \<^verbatim>\<open>!endif\<close>, \<^verbatim>\<open>EDK_GLOBAL FOO = 1\<close> the two runs work
  on the same raw table, the first one disables the \<^verbatim>\<open>!ifdef\<close> record and the record it
  encloses, and the second one enables all the records.
\<close>

theorem PostProcess_twice_differs:
  "(case PostProcess ifdef_ext 10 ifdef_parser of
      Some (Inr st1) \<Rightarrow>
        (case PostProcess ifdef_ext 10 st1 of
           Some (Inr st2) \<Rightarrow>
             RawTable st1 = ifdef_raw_table \<and> RawTable st2 = ifdef_raw_table \<and>
             map DscLine.Enabled (CurrentContent (Table st1)) = [True, False, False, True, True] \<and>
             map DscLine.Enabled (CurrentContent (Table st2)) = [True, True, True, True, True]
         | _ \<Rightarrow> False)
    | _ \<Rightarrow> False)"
  by code_simp

lemma ProcessMultipleLineCODEValue_Nil: "ProcessMultipleLineCODEValue [] = []"
  by (simp add: ProcessMultipleLineCODEValue_def)

lemma Done_effect:
  "CurrentContent (Table (Done dummy st)) = CurrentContent (Table st) @ [dummy] \<and>
   Finished (Done dummy st)"
  by (simp add: Done_def set_Table_def Table_def SetEndFlag_def split: option.splits)

text \<open>
  Claim C6 (a file without lines), as the code has it.  \<open>InfParser.Start\<close> and
  \<open>DscParser.Start\<close> return, the parser is finished and the table has the end flag as its only
  new record; \<open>DecParser.Start\<close> raises \<open>FORMAT_INVALID\<close>, since the file has no \<^verbatim>\<open>[Defines]\<close>
  section.
\<close>

theorem empty_file_start:
  "(MetaFileLines ex = Some [] \<longrightarrow>
      (\<exists>ist'. InfParser_Start mfi ex ibody ist = Inr ist' \<and> Finished ist' \<and>
         CurrentContent (Table ist') = CurrentContent (Table ist) @ [ModuleTable_DUMMY])) \<and>
   (MetaFileLines ex = Some [] \<and> DirectiveStack dst = [] \<longrightarrow>
      (\<exists>dst'. DscParser_Start ex dbody dst = Inr dst' \<and> Finished dst' \<and>
         CurrentContent (Table dst') = CurrentContent (Table dst) @ [PlatformTable_DUMMY])) \<and>
   (MetaFileLines ex = Some [] \<longrightarrow>
      DecParser_Start ex pbody pst = Inl (FORMAT_INVALID, ''No [Defines] section exist.''))"
  (is "?inf \<and> ?dsc \<and> ?dec")
proof -
  have 1: ?inf
    by (simp add: InfParser_Start_def inf_locals_init_def Done_effect)
  have 2: ?dsc
    by (simp add: DscParser_Start_def ProcessMultipleLineCODEValue_Nil Done_effect)
  have 3: ?dec
    by (simp add: DecParser_Start_def ProcessMultipleLineCODEValue_Nil)
  show ?thesis
    by (rule conjI[OF 1 conjI[OF 2 3]])
qed

text \<open>The theorem at the three parsers as constructed, each with an empty table.\<close>

theorem empty_file_start_witness:
  "MetaFileLines empty_ext = Some [] \<and>
   DirectiveStack (DscParser_init MetaFileTable_init 0 (-1) (-1) GlobalData_empty) = [] \<and>
   (\<exists>s. InfParser_Start 0 empty_ext idle_body (InfParser_init MetaFileTable_init) = Inr s \<and>
      Finished s \<and> CurrentContent (Table s) = [ModuleTable_DUMMY]) \<and>
   (\<exists>s. DscParser_Start empty_ext idle_body
          (DscParser_init MetaFileTable_init 0 (-1) (-1) GlobalData_empty) = Inr s \<and>
      Finished s \<and> CurrentContent (Table s) = [PlatformTable_DUMMY]) \<and>
   DecParser_Start empty_ext idle_body (DecParser_init MetaFileTable_init)
     = Inl (FORMAT_INVALID, ''No [Defines] section exist.'')"
proof -
  have e: "MetaFileLines empty_ext = Some []"
    by (simp add: empty_ext_def example_ext_def)
  have d: "DirectiveStack (DscParser_init MetaFileTable_init 0 (-1) (-1) GlobalData_empty) = []"
    by (simp add: DscParser_init_def DscParser.fields_def MetaFileParser.extend_def MetaFileParser_init_def)
  have i0: "CurrentContent (Table (InfParser_init MetaFileTable_init)) = []"
    by (simp add: InfParser_init_def MetaFileParser_init_def Table_def MetaFileTable_init_def)
  have d0: "CurrentContent (Table (DscParser_init MetaFileTable_init 0 (-1) (-1) GlobalData_empty)) = []"
    by (simp add: DscParser_init_def DscParser.fields_def MetaFileParser.extend_def
        MetaFileParser_init_def Table_def MetaFileTable_init_def)
  note T = empty_file_start[where ex = empty_ext and mfi = 0 and ibody = idle_body
      and ist = "InfParser_init MetaFileTable_init"
      and dst = "DscParser_init MetaFileTable_init 0 (-1) (-1) GlobalData_empty" and dbody = idle_body
      and pbody = idle_body and pst = "DecParser_init MetaFileTable_init"]
  show ?thesis
    using T e d unfolding i0 d0 by simp
qed

text \<open>
  The claim as stated fails for the package parser: on a file without lines
  \<open>DecParser.Start\<close> raises \<open>FORMAT_INVALID\<close>.
\<close>

theorem empty_dec_file_fails:
  "DecParser_Start empty_ext idle_body (DecParser_init MetaFileTable_init)
     = Inl (FORMAT_INVALID, ''No [Defines] section exist.'')"
  by (simp add: DecParser_Start_def empty_ext_def example_ext_def ProcessMultipleLineCODEValue_def)

end
